theory Spec2Isabelle
  imports Complex_Main
begin

section \<open>Model-based optimisation of an imaging lens (trainer/mbo\_lens.py)\<close>

text \<open>
  A shallow embedding of \<^verbatim>\<open>CameraPipeline\<close> and \<^verbatim>\<open>MBOLens\<close>. The classes the module
  imports (the DOE, the free-space propagator, the lithography network, the utilities,
  the kornia metrics, the deconvolution, the optimiser's update rule) are not part of
  the module: they are the fields of the record \<open>ext\<close> and every theorem holds for all
  of them. They are taken to return; an exception of the module itself (a bare
  \<^verbatim>\<open>raise\<close>, \<^verbatim>\<open>raise Exception\<close>, a modulus by zero, an unbound local, an attribute
  of \<^verbatim>\<open>None\<close>, an index out of range) is a value of \<open>py_exception\<close>.
\<close>

subsection \<open>Floating-point values and tensors\<close>

text \<open>
  A float is finite, an infinity or NaN. Finite values are idealised as reals: rounding
  and overflow to infinity inside one operation are not modelled, the propagation of
  infinities and NaN is.
\<close>

datatype tfloat = Fin real | PInf | NInf | NaN

fun isnan :: "tfloat \<Rightarrow> bool" where
  "isnan NaN = True"
| "isnan _ = False"

fun isinf :: "tfloat \<Rightarrow> bool" where
  "isinf PInf = True"
| "isinf NInf = True"
| "isinf _ = False"

fun tf_neg :: "tfloat \<Rightarrow> tfloat" where
  "tf_neg (Fin a) = Fin (- a)"
| "tf_neg PInf = NInf"
| "tf_neg NInf = PInf"
| "tf_neg NaN = NaN"

fun tf_add :: "tfloat \<Rightarrow> tfloat \<Rightarrow> tfloat" where
  "tf_add NaN _ = NaN"
| "tf_add _ NaN = NaN"
| "tf_add (Fin a) (Fin b) = Fin (a + b)"
| "tf_add PInf NInf = NaN"
| "tf_add NInf PInf = NaN"
| "tf_add PInf _ = PInf"
| "tf_add _ PInf = PInf"
| "tf_add NInf _ = NInf"
| "tf_add _ NInf = NInf"

definition tf_sub :: "tfloat \<Rightarrow> tfloat \<Rightarrow> tfloat" where
  "tf_sub a b = tf_add a (tf_neg b)"

definition inf_of_sign :: "real \<Rightarrow> tfloat" where
  "inf_of_sign a = (if a = 0 then NaN else if 0 < a then PInf else NInf)"

fun tf_mul :: "tfloat \<Rightarrow> tfloat \<Rightarrow> tfloat" where
  "tf_mul NaN _ = NaN"
| "tf_mul _ NaN = NaN"
| "tf_mul (Fin a) (Fin b) = Fin (a * b)"
| "tf_mul (Fin a) PInf = inf_of_sign a"
| "tf_mul (Fin a) NInf = inf_of_sign (- a)"
| "tf_mul PInf (Fin b) = inf_of_sign b"
| "tf_mul NInf (Fin b) = inf_of_sign (- b)"
| "tf_mul PInf PInf = PInf"
| "tf_mul NInf NInf = PInf"
| "tf_mul PInf NInf = NInf"
| "tf_mul NInf PInf = NInf"

fun tf_log :: "tfloat \<Rightarrow> tfloat" where
  "tf_log (Fin a) = (if a = 0 then NInf else if 0 < a then Fin (ln a) else NaN)"
| "tf_log PInf = PInf"
| "tf_log NInf = NaN"
| "tf_log NaN = NaN"

text \<open>The modulus of a complex number \<open>(re, im)\<close>: an infinite part wins over a NaN part.\<close>

fun tf_cabs :: "tfloat \<times> tfloat \<Rightarrow> tfloat" where
  "tf_cabs (Fin a, Fin b) = Fin (sqrt (a * a + b * b))"
| "tf_cabs (PInf, _) = PInf"
| "tf_cabs (NInf, _) = PInf"
| "tf_cabs (_, PInf) = PInf"
| "tf_cabs (_, NInf) = PInf"
| "tf_cabs _ = NaN"

text \<open>A tensor is its shape and its elements in row-major order.\<close>

datatype tensor = Tensor (shape: "nat list") (elems: "tfloat list")

datatype ctensor = CTensor (cshape: "nat list") (celems: "(tfloat \<times> tfloat) list")

datatype py_exception =
    RuntimeError | Exception | ZeroDivisionError | UnboundLocalError
  | AttributeError | IndexError

definition torch_abs :: "ctensor \<Rightarrow> tensor" where
  "torch_abs z = Tensor (cshape z) (map tf_cabs (celems z))"

definition torch_pow2 :: "tensor \<Rightarrow> tensor" where
  "torch_pow2 t = Tensor (shape t) (map (\<lambda>x. tf_mul x x) (elems t))"

definition torch_sum :: "tensor \<Rightarrow> tfloat" where
  "torch_sum t = foldl tf_add (Fin 0) (elems t)"

definition torch_isnan_any :: "tensor \<Rightarrow> bool" where
  "torch_isnan_any t = list_ex isnan (elems t)"

definition torch_isinf_any :: "tensor \<Rightarrow> bool" where
  "torch_isinf_any t = list_ex isinf (elems t)"

text \<open>
  \<^verbatim>\<open>a + b\<close> on tensors of one shape. Broadcasting is not modelled: the noise added in
  \<^verbatim>\<open>forward\<close> is produced from the image it is added to; another shape is an error.
\<close>

definition torch_add :: "tensor \<Rightarrow> tensor \<Rightarrow> py_exception + tensor" where
  "torch_add a b =
     (if shape a = shape b \<and> length (elems a) = length (elems b)
      then Inr (Tensor (shape a) (map2 tf_add (elems a) (elems b)))
      else Inl RuntimeError)"

definition add_scalar :: "tensor \<Rightarrow> real \<Rightarrow> tensor" where
  "add_scalar t c = Tensor (shape t) (map (\<lambda>x. tf_add x (Fin c)) (elems t))"

definition mul_scalar :: "tensor \<Rightarrow> real \<Rightarrow> tensor" where
  "mul_scalar t c = Tensor (shape t) (map (\<lambda>x. tf_mul x (Fin c)) (elems t))"

text \<open>\<^verbatim>\<open>t[0]\<close> and \<^verbatim>\<open>t[0, 0]\<close>: the first slice along the leading dimensions.\<close>

definition index0 :: "tensor \<Rightarrow> py_exception + tensor" where
  "index0 t =
     (case shape t of
        [] \<Rightarrow> Inl IndexError
      | d # ds \<Rightarrow> if d = 0 then Inl IndexError
                 else Inr (Tensor ds (take (prod_list ds) (elems t))))"

definition index00 :: "tensor \<Rightarrow> py_exception + tensor" where
  "index00 t = (case index0 t of Inl e \<Rightarrow> Inl e | Inr u \<Rightarrow> index0 u)"

subsection \<open>What the run does to the outside, in order\<close>

datatype fmtarg =
    AInt int | AFloat tfloat | AFloats "tfloat list" | ABool bool | AStr string | ANone

datatype event =
    EvPrint string "fmtarg list"
  | EvShow tensor string "fmtarg list" string
  | EvPlotLoss "nat list" "tfloat list" string
  | EvImwrite string "nat list"
  | EvLitho
  | EvDeconv
  | EvZeroGrad
  | EvBackward
  | EvOptStep
  | EvSchedStep

text \<open>The process-wide state: torch's random generator and the calls made so far.\<close>

record 'r runtime =
  rng :: 'r
  trace :: "event list"

definition emit :: "event \<Rightarrow> 'r runtime \<Rightarrow> 'r runtime" where
  "emit e rt = rt\<lparr>trace := trace rt @ [e]\<rparr>"

subsection \<open>The lithography network's parameters\<close>

text \<open>
  A parameter is a tensor with the flag \<^verbatim>\<open>requires_grad\<close> and, as every Python object
  with a \<^verbatim>\<open>__dict__\<close>, whatever other attributes have been assigned to it.
\<close>

record param =
  data :: tensor
  requires_grad :: bool
  attrs :: "string \<rightharpoonup> bool"

definition setattr_bool :: "param \<Rightarrow> string \<Rightarrow> bool \<Rightarrow> param" where
  "setattr_bool p name v =
     (if name = ''requires_grad'' then p\<lparr>requires_grad := v\<rparr>
      else p\<lparr>attrs := (attrs p)(name \<mapsto> v)\<rparr>)"

subsection \<open>The collaborators\<close>

record ('o, 'r) ext =
  doe_init_logits :: tensor
  get_doe_sample :: "tensor \<Rightarrow> 'r \<Rightarrow> tensor \<times> 'r"
  logits_to_doe_profile :: "tensor \<Rightarrow> tensor list"
  lens_model :: "tensor \<Rightarrow> ctensor"
  litho_forward :: "param list \<Rightarrow> tensor \<Rightarrow> tensor"
  model_selector :: "string \<Rightarrow> param list"
  torch_load :: "string \<Rightarrow> py_exception + tensor list"
  conv2d :: "tensor \<Rightarrow> tensor \<Rightarrow> tensor"
  sensor_noise :: "tensor \<Rightarrow> real \<Rightarrow> real \<Rightarrow> 'r \<Rightarrow> tensor \<times> 'r"
  metric_ssim :: "tensor \<Rightarrow> tensor \<Rightarrow> tfloat"
  metric_psnr :: "tensor \<Rightarrow> tensor \<Rightarrow> tfloat"
  loss_fn :: "tensor \<Rightarrow> tensor \<Rightarrow> tfloat"
  center_to_background_ratio :: "tensor \<Rightarrow> nat \<Rightarrow> tfloat"
  torch_richardson_lucy_fft :: "tensor \<Rightarrow> tensor \<Rightarrow> tensor"
  normalize_t :: "tensor \<Rightarrow> tensor"
  central_crop :: "tensor \<Rightarrow> nat \<Rightarrow> tensor"
  astype_uint8 :: "tensor \<Rightarrow> nat list"
  adamw_init :: "'o"
  autograd :: "string option \<Rightarrow> bool \<Rightarrow> tensor \<Rightarrow> param list \<Rightarrow> 'r \<Rightarrow> tensor \<Rightarrow> tensor"
  adamw_update :: "real \<Rightarrow> 'o \<Rightarrow> tensor \<Rightarrow> tensor \<Rightarrow> tensor \<times> 'o"

subsection \<open>CameraPipeline\<close>

record camera_pipeline =
  cam_use_litho_model_flag :: bool
  doe_logits :: tensor

definition CameraPipeline_init :: "('o, 'r) ext \<Rightarrow> bool \<Rightarrow> camera_pipeline" where
  "CameraPipeline_init ex use_litho_model_flag =
     \<lparr>cam_use_litho_model_flag = use_litho_model_flag, doe_logits = doe_init_logits ex\<rparr>"

type_synonym psf_result = "tensor \<times> tfloat \<times> tensor \<times> tensor"

definition get_psf ::
  "('o, 'r) ext \<Rightarrow> camera_pipeline \<Rightarrow> param list \<Rightarrow> 'r runtime
    \<Rightarrow> (py_exception + psf_result) \<times> 'r runtime" where
  "get_psf ex cam litho_model rt =
     (let (mask_t, r1) = get_doe_sample ex (doe_logits cam) (rng rt);
          rt1 = rt\<lparr>rng := r1\<rparr>;
          (print_pred, rt2) =
             (if cam_use_litho_model_flag cam
              then (litho_forward ex litho_model mask_t, emit EvLitho rt1)
              else (mask_t, rt1));
          psf = torch_pow2 (torch_abs (lens_model ex print_pred));
          psf_sum = torch_sum psf
      in if torch_isnan_any psf then (Inl RuntimeError, rt2)
         else (Inr (psf, psf_sum, print_pred, mask_t), rt2))"

text \<open>
  The value bound to \<^verbatim>\<open>psf\<close> at line 55, from the camera, the lithography model and the
  generator's state when \<^verbatim>\<open>get_psf\<close> is entered.
\<close>

abbreviation computed_psf ::
  "('o, 'r) ext \<Rightarrow> camera_pipeline \<Rightarrow> param list \<Rightarrow> 'r \<Rightarrow> tensor" where
  "computed_psf ex cam litho_model r \<equiv>
     torch_pow2 (torch_abs (lens_model ex
       (if cam_use_litho_model_flag cam
        then litho_forward ex litho_model (fst (get_doe_sample ex (doe_logits cam) r))
        else fst (get_doe_sample ex (doe_logits cam) r))))"

type_synonym forward_result = "tensor \<times> tensor \<times> tfloat \<times> tensor \<times> tensor"

definition forward ::
  "('o, 'r) ext \<Rightarrow> camera_pipeline \<Rightarrow> tensor \<Rightarrow> param list \<Rightarrow> 'r runtime
    \<Rightarrow> (py_exception + forward_result) \<times> 'r runtime" where
  "forward ex cam batch_target litho_model rt =
     (case get_psf ex cam litho_model rt of
        (Inl e, rt1) \<Rightarrow> (Inl e, rt1)
      | (Inr (psf, psf_sum, print_pred, mask_t), rt1) \<Rightarrow>
          (let sensor_img0 = conv2d ex batch_target psf;
               (noise, r2) = sensor_noise ex sensor_img0 0.004 0.02 (rng rt1);
               rt2 = rt1\<lparr>rng := r2\<rparr>
           in case torch_add sensor_img0 noise of
                Inl e \<Rightarrow> (Inl e, rt2)
              | Inr sensor_img \<Rightarrow> (Inr (sensor_img, psf, psf_sum, print_pred, mask_t), rt2)))"

subsection \<open>MBOLens\<close>

record 'o optimizer =
  opt_lr :: real
  opt_state :: 'o

record steplr =
  step_size :: nat
  gamma :: real
  last_epoch :: nat

record 'o mbo_lens =
  model_choice :: string
  cam_a_poisson :: real
  cam_b_sqrt :: real
  litho_model :: "param list"
  camera :: camera_pipeline
  loss_type :: "string option"
  num_iters :: int
  lr :: real
  mask_optimizer :: "'o optimizer"
  image_visualize_interval :: int
  save_dir :: string
  use_scheduler :: bool
  scheduler :: "steplr option"

text \<open>
  \<^verbatim>\<open>load_state_dict\<close> copies the checkpoint's tensors into the parameters and leaves
  their flags alone; a checkpoint that does not match the network is an error.
\<close>

definition load_state_dict :: "param list \<Rightarrow> tensor list \<Rightarrow> py_exception + param list" where
  "load_state_dict ps checkpoint =
     (if length checkpoint = length ps
      then Inr (map2 (\<lambda>p t. p\<lparr>data := t\<rparr>) ps checkpoint)
      else Inl RuntimeError)"

definition load_pretrained_litho_model ::
  "('o, 'r) ext \<Rightarrow> string \<Rightarrow> param list \<Rightarrow> bool \<Rightarrow> 'r runtime
    \<Rightarrow> (py_exception + param list) \<times> 'r runtime" where
  "load_pretrained_litho_model ex model_choice_v litho use_litho_model_flag rt =
     (let rt1 = emit (EvPrint ''load_pretrained_model_for_optimize is {}''
                        [ABool use_litho_model_flag]) rt
      in if use_litho_model_flag then
           (case torch_load ex (''model/ckpt/'' @ ''learned_litho_model_'' @ model_choice_v @ ''.pt'') of
              Inl e \<Rightarrow> (Inl e, rt1)
            | Inr checkpoint \<Rightarrow>
                (case load_state_dict litho checkpoint of
                   Inl e \<Rightarrow> (Inl e, rt1)
                 | Inr loaded \<Rightarrow>
                     (Inr (map (\<lambda>p. setattr_bool p ''requries_grad'' False) loaded), rt1)))
         else (Inr litho, rt1))"

text \<open>The optimiser is built over the DOE's logits alone; the scheduler is StepLR(25, 0.5).\<close>

definition initialize_optimization ::
  "('o, 'r) ext \<Rightarrow> 'o mbo_lens \<Rightarrow> real \<Rightarrow> int \<Rightarrow> string option \<Rightarrow> bool \<Rightarrow> int \<Rightarrow> string
    \<Rightarrow> 'o mbo_lens" where
  "initialize_optimization ex self lr_v num_iters_v loss_type_v use_scheduler_v
       image_visualize_interval_v save_dir_v =
     self\<lparr>loss_type := loss_type_v,
          num_iters := num_iters_v,
          lr := lr_v,
          mask_optimizer := \<lparr>opt_lr = lr_v, opt_state = adamw_init ex\<rparr>,
          image_visualize_interval := image_visualize_interval_v,
          save_dir := save_dir_v,
          use_scheduler := use_scheduler_v,
          scheduler := (if use_scheduler_v
                        then Some \<lparr>step_size = 25, gamma = 0.5, last_epoch = 0\<rparr>
                        else None)\<rparr>"

text \<open>
  \<^verbatim>\<open>__init__\<close>. The fields that \<^verbatim>\<open>initialize_optimization\<close> assigns hold placeholders
  until it has run, which is before \<^verbatim>\<open>__init__\<close> returns.
\<close>

definition MBOLens_init ::
  "('o, 'r) ext \<Rightarrow> string \<Rightarrow> bool \<Rightarrow> int \<Rightarrow> real \<Rightarrow> bool \<Rightarrow> int \<Rightarrow> real \<Rightarrow> real \<Rightarrow> string
    \<Rightarrow> string option \<Rightarrow> 'r runtime \<Rightarrow> (py_exception + 'o mbo_lens) \<times> 'r runtime" where
  "MBOLens_init ex model_choice_v use_litho_model_flag num_iters_v lr_v use_scheduler_v
       image_visualize_interval_v cam_a_poisson_v cam_b_sqrt_v save_dir_v loss_type_v rt =
     (case load_pretrained_litho_model ex model_choice_v (model_selector ex model_choice_v)
             use_litho_model_flag rt of
        (Inl e, rt1) \<Rightarrow> (Inl e, rt1)
      | (Inr litho, rt1) \<Rightarrow>
          (Inr (initialize_optimization ex
                  \<lparr>model_choice = model_choice_v,
                   cam_a_poisson = cam_a_poisson_v,
                   cam_b_sqrt = cam_b_sqrt_v,
                   litho_model = litho,
                   camera = CameraPipeline_init ex use_litho_model_flag,
                   loss_type = None, num_iters = 0, lr = 0,
                   mask_optimizer = \<lparr>opt_lr = 0, opt_state = adamw_init ex\<rparr>,
                   image_visualize_interval = 0, save_dir = [],
                   use_scheduler = False, scheduler = None\<rparr>
                  lr_v num_iters_v loss_type_v use_scheduler_v image_visualize_interval_v
                  save_dir_v),
           rt1))"

definition visualize ::
  "('o, 'r) ext \<Rightarrow> 'o mbo_lens \<Rightarrow> nat \<Rightarrow> tensor \<Rightarrow> tensor \<Rightarrow> tensor \<Rightarrow> tensor option
    \<Rightarrow> nat list \<Rightarrow> tfloat list \<Rightarrow> tfloat list \<Rightarrow> tfloat list \<Rightarrow> tfloat \<Rightarrow> tfloat
    \<Rightarrow> 'r runtime \<Rightarrow> (py_exception + tensor option) \<times> 'r runtime" where
  "visualize ex self i mask_t sensor_img psf deconv_img itr_list loss_list mssim mpsnr
       psf_sum loss rt =
     (if image_visualize_interval self = 0 then (Inl ZeroDivisionError, rt)
      else if (int i + 1) mod image_visualize_interval self = 0 then
        (case index00 mask_t of
           Inl e \<Rightarrow> (Inl e, rt)
         | Inr m \<Rightarrow>
        (let rt1 = emit (EvShow m ''doe mask at itr {}'' [AInt (int i)] ''jet'') rt in
         case index00 (normalize_t ex psf) of
           Inl e \<Rightarrow> (Inl e, rt1)
         | Inr p \<Rightarrow>
        (let psf_save = central_crop ex p 128;
             rt2 = emit (EvShow psf_save ''psf at itr {} is {}''
                           [AInt (int i), AFloat psf_sum] ''gray'') rt1
         in case index00 sensor_img of
           Inl e \<Rightarrow> (Inl e, rt2)
         | Inr si \<Rightarrow>
        (let rt3 = emit (EvShow si ''sensor_img at itr {}'' [AInt (int i)] ''gray'') rt2 in
         case (case deconv_img of
                 None \<Rightarrow> Inr rt3
               | Some d \<Rightarrow>
                   (case index00 d of
                      Inl e \<Rightarrow> Inl e
                    | Inr di \<Rightarrow>
                        Inr (emit (EvShow di ''deconv_img at itr {}'' [AInt (int i)] ''gray'')
                               rt3))) of
           Inl e \<Rightarrow> (Inl e, rt3)
         | Inr rt4 \<Rightarrow>
        (let rt5 = emit (EvPlotLoss itr_list loss_list ''loss'') rt4;
             rt6 = emit (EvPrint ''loss is {} at itr {}'' [AFloat loss, AInt (int i)]) rt5;
             rt7 = emit (EvPrint ''SSIM and PSNR is {} and {} at itr {}.''
                           [AFloats mssim, AFloats mpsnr, AInt (int i)]) rt6
         in (Inr (Some psf_save), rt7))))))
      else (Inr None, rt))"

type_synonym loss_result = "tfloat \<times> tensor option \<times> tfloat list \<times> tfloat list"

definition fmt_loss_type :: "string option \<Rightarrow> fmtarg" where
  "fmt_loss_type t = (case t of None \<Rightarrow> ANone | Some s \<Rightarrow> AStr s)"

definition calculate_loss ::
  "('o, 'r) ext \<Rightarrow> 'o mbo_lens \<Rightarrow> tensor \<Rightarrow> tensor \<Rightarrow> tensor \<Rightarrow> 'r runtime
    \<Rightarrow> (py_exception + loss_result) \<times> 'r runtime" where
  "calculate_loss ex self cam_img target psf rt =
     (let deconv_result = None;
          metric_ssim1 = tf_sub (Fin 1) (tf_mul (metric_ssim ex cam_img target) (Fin 2));
          metric_psnr1 = tf_neg (metric_psnr ex cam_img target);
          metric_ssim_l = [metric_ssim1];
          metric_psnr_l = [metric_psnr1]
      in if loss_type self = Some ''cbr'' then
           (let loss = tf_neg (tf_log (center_to_background_ratio ex psf 10))
            in (Inr (loss, deconv_result, metric_ssim_l, metric_psnr_l), rt))
         else if loss_type self = Some ''deconv_loss'' then
           (let rt1 = emit EvDeconv rt;
                deconv = torch_richardson_lucy_fft ex cam_img psf;
                loss = loss_fn ex deconv target;
                metric_ssim2 = tf_sub (Fin 1) (tf_mul (metric_ssim ex deconv target) (Fin 2));
                metric_psnr2 = tf_neg (metric_psnr ex deconv target)
            in (Inr (loss, Some deconv, metric_ssim_l @ [metric_ssim2],
                     metric_psnr_l @ [metric_psnr2]), rt1))
         else (Inl Exception,
               emit (EvPrint ''wrong type {}'' [fmt_loss_type (loss_type self)]) rt))"

text \<open>\<^verbatim>\<open>logits_to_doe_profile()[0]\<close>: the first item of what the DOE returns.\<close>

definition first_item :: "tensor list \<Rightarrow> py_exception + tensor" where
  "first_item ts = (case ts of [] \<Rightarrow> Inl IndexError | t # _ \<Rightarrow> Inr t)"

definition save_optimized_psf_mask ::
  "('o, 'r) ext \<Rightarrow> 'o mbo_lens \<Rightarrow> tensor option \<Rightarrow> 'r runtime
    \<Rightarrow> (py_exception + tensor) \<times> 'r runtime" where
  "save_optimized_psf_mask ex self psf_save rt =
     (case first_item (logits_to_doe_profile ex (doe_logits (camera self))) of
        Inl e \<Rightarrow> (Inl e, rt)
      | Inr mask_logits \<Rightarrow>
          (let mask_to_save = astype_uint8 ex (add_scalar mask_logits 10)
           in case psf_save of
                None \<Rightarrow> (Inl AttributeError, rt)
              | Some psf_to_save \<Rightarrow>
                  (let rt1 = emit (EvImwrite (save_dir self @ ''/mask'' @ ''.bmp'')
                                     mask_to_save) rt;
                       rt2 = emit (EvImwrite (save_dir self @ ''/psf'' @ ''.bmp'')
                                     (astype_uint8 ex (mul_scalar psf_to_save 255))) rt1
                   in (Inr mask_logits, rt2))))"

text \<open>
  \<^verbatim>\<open>loss.backward()\<close> followed by \<^verbatim>\<open>mask_optimizer.step()\<close>: the gradient of this
  iteration's loss with respect to the logits (the gradient was cleared before the
  forward pass), then AdamW's update of the logits and of its own moments.
\<close>

definition mask_optimizer_step :: "('o, 'r) ext \<Rightarrow> tensor \<Rightarrow> 'o mbo_lens \<Rightarrow> 'o mbo_lens" where
  "mask_optimizer_step ex g self =
     (let (logits', st') = adamw_update ex (opt_lr (mask_optimizer self))
                             (opt_state (mask_optimizer self)) (doe_logits (camera self)) g
      in self\<lparr>camera := (camera self)\<lparr>doe_logits := logits'\<rparr>,
              mask_optimizer := (mask_optimizer self)\<lparr>opt_state := st'\<rparr>\<rparr>)"

definition scheduler_step :: "'o mbo_lens \<Rightarrow> py_exception + 'o mbo_lens" where
  "scheduler_step self =
     (case scheduler self of
        None \<Rightarrow> Inl AttributeError
      | Some sch \<Rightarrow>
          (let e = last_epoch sch + 1;
               opt = mask_optimizer self
           in Inr (self\<lparr>scheduler := Some (sch\<lparr>last_epoch := e\<rparr>),
                        mask_optimizer :=
                          (if e mod step_size sch = 0
                           then opt\<lparr>opt_lr := opt_lr opt * gamma sch\<rparr> else opt)\<rparr>)))"

text \<open>
  The locals of \<^verbatim>\<open>optim\<close> that outlive an iteration. \<^verbatim>\<open>psf_save\<close> and \<^verbatim>\<open>print_pred\<close>
  are unbound (\<open>None\<close>) until the first iteration has assigned them; a bound \<^verbatim>\<open>psf_save\<close>
  holds Python's \<^verbatim>\<open>None\<close> (\<open>Some None\<close>) or a tensor.
\<close>

record locals =
  loss_list :: "tfloat list"
  itr_list :: "nat list"
  psf_save :: "tensor option option"
  print_pred :: "tensor option"

definition locals0 :: locals where
  "locals0 = \<lparr>loss_list = [], itr_list = [], psf_save = None, print_pred = None\<rparr>"

text \<open>
  Lines 186 to 189 of an iteration: \<^verbatim>\<open>loss.backward()\<close>, \<^verbatim>\<open>mask_optimizer.step()\<close> and,
  with a scheduler, \<^verbatim>\<open>scheduler.step()\<close>. \<open>r0\<close> is the generator's state at the start of
  the forward pass whose loss is differentiated.
\<close>

definition update_logits ::
  "('o, 'r) ext \<Rightarrow> tensor \<Rightarrow> 'r \<Rightarrow> 'o mbo_lens \<Rightarrow> 'r runtime
    \<Rightarrow> (py_exception + unit) \<times> 'o mbo_lens \<times> 'r runtime" where
  "update_logits ex batch_target r0 self rt =
     (let g = autograd ex (loss_type self) (cam_use_litho_model_flag (camera self))
                 (doe_logits (camera self)) (litho_model self) r0 batch_target;
          rt3 = emit EvBackward rt;
          self1 = mask_optimizer_step ex g self;
          rt4 = emit EvOptStep rt3
      in if use_scheduler self1
         then (case scheduler_step self1 of
                 Inl e \<Rightarrow> (Inl e, self1, rt4)
               | Inr self2 \<Rightarrow> (Inr (), self2, emit EvSchedStep rt4))
         else (Inr (), self1, rt4))"

definition optim_iter ::
  "('o, 'r) ext \<Rightarrow> tensor \<Rightarrow> nat \<Rightarrow> locals \<Rightarrow> 'o mbo_lens \<Rightarrow> 'r runtime
    \<Rightarrow> (py_exception + locals) \<times> 'o mbo_lens \<times> 'r runtime" where
  "optim_iter ex batch_target i lv self rt =
     (let rt0 = emit EvZeroGrad rt in
      case forward ex (camera self) batch_target (litho_model self) rt0 of
        (Inl e, rt1) \<Rightarrow> (Inl e, self, rt1)
      | (Inr (sensor_img, psf, psf_sum, print_pred_v, mask_t), rt1) \<Rightarrow>
      (case calculate_loss ex self sensor_img batch_target psf rt1 of
        (Inl e, rt2) \<Rightarrow> (Inl e, self, rt2)
      | (Inr (loss, deconv_img, mssim, mpsnr), rt2) \<Rightarrow>
      (case update_logits ex batch_target (rng rt0) self rt2 of
        (Inl e, self3, rt5) \<Rightarrow> (Inl e, self3, rt5)
      | (Inr u, self3, rt5) \<Rightarrow>
      (let lv1 = lv\<lparr>loss_list := loss_list lv @ [loss], itr_list := itr_list lv @ [i]\<rparr>
       in case visualize ex self3 i mask_t sensor_img psf deconv_img (itr_list lv1)
                 (loss_list lv1) mssim mpsnr psf_sum loss rt5 of
            (Inl e, rt6) \<Rightarrow> (Inl e, self3, rt6)
          | (Inr ps, rt6) \<Rightarrow>
              (Inr (lv1\<lparr>psf_save := Some ps, print_pred := Some print_pred_v\<rparr>),
               self3, rt6)))))"

fun optim_loop ::
  "('o, 'r) ext \<Rightarrow> tensor \<Rightarrow> nat list \<Rightarrow> locals \<Rightarrow> 'o mbo_lens \<Rightarrow> 'r runtime
    \<Rightarrow> (py_exception + locals) \<times> 'o mbo_lens \<times> 'r runtime" where
  "optim_loop ex batch_target [] lv self rt = (Inr lv, self, rt)"
| "optim_loop ex batch_target (i # rest) lv self rt =
     (case optim_iter ex batch_target i lv self rt of
        (Inl e, self1, rt1) \<Rightarrow> (Inl e, self1, rt1)
      | (Inr lv1, self1, rt1) \<Rightarrow> optim_loop ex batch_target rest lv1 self1 rt1)"

text \<open>\<^verbatim>\<open>range(self.num_iters)\<close>: empty when \<^verbatim>\<open>num_iters\<close> is not positive.\<close>

definition py_range :: "int \<Rightarrow> nat list" where
  "py_range n = [0..<nat n]"

definition optim ::
  "('o, 'r) ext \<Rightarrow> tensor \<Rightarrow> 'o mbo_lens \<Rightarrow> 'r runtime
    \<Rightarrow> (py_exception + tensor \<times> tensor) \<times> 'o mbo_lens \<times> 'r runtime" where
  "optim ex batch_target self rt =
     (case optim_loop ex batch_target (py_range (num_iters self)) locals0 self rt of
        (Inl e, self1, rt1) \<Rightarrow> (Inl e, self1, rt1)
      | (Inr lv, self1, rt1) \<Rightarrow>
          (case psf_save lv of
             None \<Rightarrow> (Inl UnboundLocalError, self1, rt1)
           | Some ps \<Rightarrow>
               (case save_optimized_psf_mask ex self1 ps rt1 of
                  (Inl e, rt2) \<Rightarrow> (Inl e, self1, rt2)
                | (Inr mask_logits, rt2) \<Rightarrow>
                    (case print_pred lv of
                       None \<Rightarrow> (Inl UnboundLocalError, self1, rt2)
                     | Some pp \<Rightarrow> (Inr (mask_logits, pp), self1, rt2)))))"

subsection \<open>Reading the trace\<close>

definition count_ev :: "event \<Rightarrow> event list \<Rightarrow> nat" where
  "count_ev e tr = length (filter (\<lambda>x. x = e) tr)"

text \<open>The iteration histories handed to \<^verbatim>\<open>plot_loss\<close>, one per rendering.\<close>

fun plot_calls :: "event list \<Rightarrow> nat list list" where
  "plot_calls [] = []"
| "plot_calls (EvPlotLoss itrs losses fname # es) = itrs # plot_calls es"
| "plot_calls (_ # es) = plot_calls es"

text \<open>
  What an iteration may change of the object: the logits, the optimiser and the
  scheduler. \<open>same_config a b\<close> says that \<open>b\<close> is \<open>a\<close> up to these three.
\<close>

definition same_config :: "'o mbo_lens \<Rightarrow> 'o mbo_lens \<Rightarrow> bool" where
  "same_config a b =
     (b = a\<lparr>camera := camera b, mask_optimizer := mask_optimizer b,
            scheduler := scheduler b\<rparr>
      \<and> cam_use_litho_model_flag (camera b) = cam_use_litho_model_flag (camera a))"

subsection \<open>A small concrete run\<close>

text \<open>
  One-pixel tensors and collaborators simple enough to evaluate: the DOE sample is the
  logits, the lens squares it, the lithography network adds one, every optimiser step
  subtracts one from the logits.
\<close>

definition px :: "real \<Rightarrow> tensor" where
  "px a = Tensor [1, 1, 1, 1] [Fin a]"

definition ext0 :: "(unit, unit) ext" where
  "ext0 =
     \<lparr>doe_init_logits = px 1,
      get_doe_sample = (\<lambda>l r. (l, r)),
      logits_to_doe_profile = (\<lambda>l. [l]),
      lens_model = (\<lambda>t. CTensor (shape t) (map (\<lambda>x. (x, Fin 0)) (elems t))),
      litho_forward = (\<lambda>ps t. add_scalar t 1),
      model_selector = (\<lambda>name. [\<lparr>data = px 0, requires_grad = True, attrs = Map.empty\<rparr>]),
      torch_load = (\<lambda>path. Inr [px 2]),
      conv2d = (\<lambda>a b. a),
      sensor_noise = (\<lambda>img a b r. (mul_scalar img 0, r)),
      metric_ssim = (\<lambda>a b. Fin (1 / 4)),
      metric_psnr = (\<lambda>a b. Fin (- 3)),
      loss_fn = (\<lambda>a b. Fin (1 / 2)),
      center_to_background_ratio = (\<lambda>p n. Fin 1),
      torch_richardson_lucy_fft = (\<lambda>img p. img),
      normalize_t = (\<lambda>t. t),
      central_crop = (\<lambda>t n. t),
      astype_uint8 = (\<lambda>t. []),
      adamw_init = (),
      autograd = (\<lambda>lt flag l ps r tgt. px 1),
      adamw_update = (\<lambda>rate st p g. (add_scalar p (- 1), st))\<rparr>"

text \<open>The same collaborators with a lens whose field is infinite, and one whose field is NaN.\<close>

definition ext_inf :: "(unit, unit) ext" where
  "ext_inf = ext0\<lparr>lens_model := (\<lambda>t. CTensor (shape t) (map (\<lambda>x. (PInf, Fin 0)) (elems t)))\<rparr>"

definition ext_nan :: "(unit, unit) ext" where
  "ext_nan = ext0\<lparr>lens_model := (\<lambda>t. CTensor (shape t) (map (\<lambda>x. (NaN, Fin 0)) (elems t)))\<rparr>"

text \<open>A lens whose field is NaN only where the print prediction is zero.\<close>

definition ext_nan_late :: "(unit, unit) ext" where
  "ext_nan_late =
     ext0\<lparr>lens_model :=
            (\<lambda>t. CTensor (shape t) (map (\<lambda>x. (if x = Fin 0 then NaN else x, Fin 0)) (elems t)))\<rparr>"

definition rt0 :: "unit runtime" where
  "rt0 = \<lparr>rng = (), trace = []\<rparr>"

definition cam0 :: "bool \<Rightarrow> camera_pipeline" where
  "cam0 flag = \<lparr>cam_use_litho_model_flag = flag, doe_logits = px 1\<rparr>"

definition mbo0 :: "bool \<Rightarrow> string option \<Rightarrow> int \<Rightarrow> int \<Rightarrow> unit mbo_lens" where
  "mbo0 flag lt n k =
     \<lparr>model_choice = ''pbl3d'', cam_a_poisson = 1, cam_b_sqrt = 1,
      litho_model = [\<lparr>data = px 2, requires_grad = True, attrs = Map.empty\<rparr>],
      camera = cam0 flag, loss_type = lt, num_iters = n, lr = 1,
      mask_optimizer = \<lparr>opt_lr = 1, opt_state = ()\<rparr>,
      image_visualize_interval = k, save_dir = ''out'',
      use_scheduler = False, scheduler = None\<rparr>"

section \<open>Properties\<close>

subsection \<open>Evaluation rules shared by the concrete runs\<close>

lemmas eval0 = ext0_def cam0_def rt0_def px_def torch_pow2_def torch_abs_def
  torch_isnan_any_def torch_isinf_any_def torch_sum_def Let_def add_scalar_def mul_scalar_def
  torch_add_def emit_def

subsection \<open>The camera pipeline\<close>

text \<open>\<^verbatim>\<open>get_psf\<close> with its local bindings spelled out.\<close>

lemma get_psf_cases:
  "get_psf ex cam lm rt =
     (let m = fst (get_doe_sample ex (doe_logits cam) (rng rt));
          r1 = snd (get_doe_sample ex (doe_logits cam) (rng rt));
          pp = (if cam_use_litho_model_flag cam then litho_forward ex lm m else m);
          rt2 = (if cam_use_litho_model_flag cam then emit EvLitho (rt\<lparr>rng := r1\<rparr>)
                 else rt\<lparr>rng := r1\<rparr>);
          psf = torch_pow2 (torch_abs (lens_model ex pp))
      in if torch_isnan_any psf then (Inl RuntimeError, rt2)
         else (Inr (psf, torch_sum psf, pp, m), rt2))"
  by (simp add: get_psf_def Let_def split: prod.splits)

text \<open>
  C1, as stated, fails: the check after the PSF is computed is \<^verbatim>\<open>torch.isnan\<close> alone.
  With a lens whose field is infinite, \<^verbatim>\<open>get_psf\<close> and \<^verbatim>\<open>forward\<close> return normally and
  the returned PSF holds an infinite element.
\<close>

theorem get_psf_inf_passes:
  "fst (get_psf ext_inf (cam0 False) [] rt0)
     = Inr (Tensor [1, 1, 1, 1] [PInf], PInf, px 1, px 1)
   \<and> fst (forward ext_inf (cam0 False) (px 1) [] rt0)
     = Inr (px 1, Tensor [1, 1, 1, 1] [PInf], PInf, px 1, px 1)
   \<and> torch_isinf_any (Tensor [1, 1, 1, 1] [PInf])"
  by (simp add: forward_def get_psf_cases ext_inf_def eval0)

text \<open>
  C7: with \<^verbatim>\<open>use_litho_model_flag\<close> false the print prediction of a forward pass is the
  mask sample and the lithography model is not called (the trace is unchanged, whether
  the pass returns or raises); with the flag true the print prediction is the
  lithography model applied to the mask sample, called once.
\<close>

theorem forward_print_pred:
  "trace (snd (get_psf ex cam lm rt)) =
     (if cam_use_litho_model_flag cam then trace rt @ [EvLitho] else trace rt)
   \<and> trace (snd (forward ex cam tgt lm rt)) =
     (if cam_use_litho_model_flag cam then trace rt @ [EvLitho] else trace rt)
   \<and> (\<forall>img psf psf_sum pp m.
        fst (forward ex cam tgt lm rt) = Inr (img, psf, psf_sum, pp, m)
        \<longrightarrow> m = fst (get_doe_sample ex (doe_logits cam) (rng rt))
            \<and> pp = (if cam_use_litho_model_flag cam then litho_forward ex lm m else m))"
  by (auto simp: forward_def get_psf_cases Let_def emit_def
           split: if_splits prod.splits sum.splits)

theorem forward_print_pred_witness:
  "fst (forward ext0 (cam0 False) (px 1) [] rt0) = Inr (px 1, px 1, Fin 1, px 1, px 1)
   \<and> trace (snd (forward ext0 (cam0 False) (px 1) [] rt0)) = []
   \<and> fst (forward ext0 (cam0 True) (px 1) [] rt0) = Inr (px 1, px 4, Fin 4, px 2, px 1)
   \<and> px 2 = litho_forward ext0 [] (px 1)
   \<and> trace (snd (forward ext0 (cam0 True) (px 1) [] rt0)) = [EvLitho]"
  using forward_print_pred [of ext0 "cam0 False" "[]" rt0 "px 1"]
        forward_print_pred [of ext0 "cam0 True" "[]" rt0 "px 1"]
  by (simp add: forward_def get_psf_cases eval0)

subsection \<open>Counting in traces\<close>

lemma count_ev_append: "count_ev e (a @ b) = count_ev e a + count_ev e b"
  by (simp add: count_ev_def)

lemma count_ev_Nil: "count_ev e [] = 0"
  by (simp add: count_ev_def)

lemma count_ev_Cons: "count_ev e (x # xs) = (if x = e then 1 else 0) + count_ev e xs"
  by (simp add: count_ev_def)

lemmas count_ev_simps = count_ev_append count_ev_Nil count_ev_Cons

lemma plot_calls_append: "plot_calls (a @ b) = plot_calls a @ plot_calls b"
  by (induction a rule: plot_calls.induct) simp_all

subsection \<open>The configuration is left alone\<close>

lemma same_config_refl: "same_config a a"
  by (simp add: same_config_def)

lemma same_config_trans: "same_config a b \<Longrightarrow> same_config b c \<Longrightarrow> same_config a c"
  by (cases a, cases b, cases c) (simp add: same_config_def)

lemma same_config_fields:
  assumes "same_config a b"
  shows "image_visualize_interval b = image_visualize_interval a"
    and "loss_type b = loss_type a"
    and "num_iters b = num_iters a"
    and "use_scheduler b = use_scheduler a"
    and "litho_model b = litho_model a"
    and "save_dir b = save_dir a"
    and "cam_use_litho_model_flag (camera b) = cam_use_litho_model_flag (camera a)"
  using assms by (cases a, cases b, simp add: same_config_def)+

subsection \<open>The steps of an iteration, one by one\<close>

lemma forward_rng:
  assumes "rng rt2 = rng rt"
  shows "fst (forward ex cam tgt lm rt2) = fst (forward ex cam tgt lm rt)"
    and "rng (snd (forward ex cam tgt lm rt2)) = rng (snd (forward ex cam tgt lm rt))"
  using assms
  by (auto simp: forward_def get_psf_cases Let_def emit_def split: prod.splits sum.splits)

lemma forward_trace:
  "trace (snd (forward ex cam tgt lm rt)) =
     trace rt @ (if cam_use_litho_model_flag cam then [EvLitho] else [])"
  by (auto simp: forward_def get_psf_cases Let_def emit_def split: prod.splits sum.splits)

lemma calculate_loss_cases:
  "calculate_loss ex self img tgt psf rt =
     (if loss_type self = Some ''cbr'' then
        (Inr (tf_neg (tf_log (center_to_background_ratio ex psf 10)), None,
              [tf_sub (Fin 1) (tf_mul (metric_ssim ex img tgt) (Fin 2))],
              [tf_neg (metric_psnr ex img tgt)]), rt)
      else if loss_type self = Some ''deconv_loss'' then
        (Inr (loss_fn ex (torch_richardson_lucy_fft ex img psf) tgt,
              Some (torch_richardson_lucy_fft ex img psf),
              [tf_sub (Fin 1) (tf_mul (metric_ssim ex img tgt) (Fin 2)),
               tf_sub (Fin 1)
                 (tf_mul (metric_ssim ex (torch_richardson_lucy_fft ex img psf) tgt) (Fin 2))],
              [tf_neg (metric_psnr ex img tgt),
               tf_neg (metric_psnr ex (torch_richardson_lucy_fft ex img psf) tgt)]),
         emit EvDeconv rt)
      else (Inl Exception,
            emit (EvPrint ''wrong type {}'' [fmt_loss_type (loss_type self)]) rt))"
  by (simp add: calculate_loss_def Let_def)

lemma calculate_loss_Inr:
  assumes "calculate_loss ex self img tgt psf rt = (Inr r, rt')"
  shows "rng rt' = rng rt"
    and "trace rt' = trace rt @ (if loss_type self = Some ''deconv_loss'' then [EvDeconv] else [])"
    and "loss_type self = Some ''cbr'' \<or> loss_type self = Some ''deconv_loss''"
  using assms by (auto simp: calculate_loss_cases emit_def split: if_splits)

lemma calculate_loss_indep:
  "fst (calculate_loss ex self img tgt psf rt2) = fst (calculate_loss ex self img tgt psf rt)"
  by (simp add: calculate_loss_cases)

lemma update_logits_Inr:
  assumes "update_logits ex tgt r0 self rt = (Inr u, self', rt')"
  shows "rng rt' = rng rt"
    and "trace rt' = trace rt @ [EvBackward, EvOptStep]
                       @ (if use_scheduler self then [EvSchedStep] else [])"
    and "same_config self self'"
    and "doe_logits (camera self') =
           fst (adamw_update ex (opt_lr (mask_optimizer self)) (opt_state (mask_optimizer self))
                  (doe_logits (camera self))
                  (autograd ex (loss_type self) (cam_use_litho_model_flag (camera self))
                     (doe_logits (camera self)) (litho_model self) r0 tgt))"
  using assms
  by (auto simp: update_logits_def mask_optimizer_step_def scheduler_step_def Let_def emit_def
                 same_config_def
           split: if_splits sum.splits option.splits prod.splits)

lemma update_logits_indep:
  "fst (update_logits ex tgt r0 self rt2) = fst (update_logits ex tgt r0 self rt)"
  "fst (snd (update_logits ex tgt r0 self rt2)) = fst (snd (update_logits ex tgt r0 self rt))"
  by (auto simp: update_logits_def Let_def split: sum.splits)

lemma visualize_Inr:
  assumes "visualize ex self i m si psf d itrs ls ms mp psum l rt = (Inr r, rt')"
  shows "rng rt' = rng rt"
    and "count_ev EvOptStep (trace rt') = count_ev EvOptStep (trace rt)"
    and "count_ev EvDeconv (trace rt') = count_ev EvDeconv (trace rt)"
    and "plot_calls (trace rt') = plot_calls (trace rt) @
           (if (int i + 1) mod image_visualize_interval self = 0 then [itrs] else [])"
    and "(r \<noteq> None) = ((int i + 1) mod image_visualize_interval self = 0)"
    and "image_visualize_interval self \<noteq> 0"
  using assms
  by (auto simp: visualize_def Let_def emit_def count_ev_simps plot_calls_append
           split: if_splits sum.splits option.splits)

subsection \<open>One iteration that completes\<close>

lemma optim_iter_Inr:
  assumes "optim_iter ex tgt i lv self rt = (Inr lv', self', rt')"
  obtains img psf psum pp m rt1 l d ms mp rt2 u rt5 ps where
    "forward ex (camera self) tgt (litho_model self) (emit EvZeroGrad rt)
       = (Inr (img, psf, psum, pp, m), rt1)"
    "calculate_loss ex self img tgt psf rt1 = (Inr (l, d, ms, mp), rt2)"
    "update_logits ex tgt (rng rt) self rt2 = (Inr u, self', rt5)"
    "visualize ex self' i m img psf d (itr_list lv @ [i]) (loss_list lv @ [l]) ms mp psum l rt5
       = (Inr ps, rt')"
    "lv' = lv\<lparr>loss_list := loss_list lv @ [l], itr_list := itr_list lv @ [i],
              psf_save := Some ps, print_pred := Some pp\<rparr>"
  using assms unfolding optim_iter_def
  by (auto simp: Let_def emit_def split: prod.splits sum.splits)

lemma optim_iter_facts:
  assumes "optim_iter ex tgt i lv self rt = (Inr lv', self', rt')"
  shows "same_config self self'"
    and "\<exists>l. loss_list lv' = loss_list lv @ [l]"
    and "itr_list lv' = itr_list lv @ [i]"
    and "count_ev EvOptStep (trace rt') = count_ev EvOptStep (trace rt) + 1"
    and "count_ev EvDeconv (trace rt') = count_ev EvDeconv (trace rt)
           + (if loss_type self = Some ''deconv_loss'' then 1 else 0)"
    and "plot_calls (trace rt') = plot_calls (trace rt) @
           (if (int i + 1) mod image_visualize_interval self = 0 then [itr_list lv @ [i]]
            else [])"
    and "\<exists>ps. psf_save lv' = Some ps
              \<and> (ps \<noteq> None) = ((int i + 1) mod image_visualize_interval self = 0)"
    and "image_visualize_interval self \<noteq> 0"
    and "loss_type self = Some ''cbr'' \<or> loss_type self = Some ''deconv_loss''"
proof -
  from assms obtain img psf psum pp m rt1 l d ms mp rt2 u rt5 ps where
    f: "forward ex (camera self) tgt (litho_model self) (emit EvZeroGrad rt)
          = (Inr (img, psf, psum, pp, m), rt1)"
    and c: "calculate_loss ex self img tgt psf rt1 = (Inr (l, d, ms, mp), rt2)"
    and u: "update_logits ex tgt (rng rt) self rt2 = (Inr u, self', rt5)"
    and v: "visualize ex self' i m img psf d (itr_list lv @ [i]) (loss_list lv @ [l]) ms mp
              psum l rt5 = (Inr ps, rt')"
    and lv: "lv' = lv\<lparr>loss_list := loss_list lv @ [l], itr_list := itr_list lv @ [i],
              psf_save := Some ps, print_pred := Some pp\<rparr>"
    by (rule optim_iter_Inr)
  have t1: "trace rt1 = trace rt @ [EvZeroGrad]
              @ (if cam_use_litho_model_flag (camera self) then [EvLitho] else [])"
    using forward_trace [of ex "camera self" tgt "litho_model self" "emit EvZeroGrad rt"] f
    by (simp add: emit_def)
  note t2 = calculate_loss_Inr(2) [OF c]
  note t5 = update_logits_Inr(2) [OF u]
  show sc: "same_config self self'" by (rule update_logits_Inr(3) [OF u])
  have k: "image_visualize_interval self' = image_visualize_interval self"
    by (rule same_config_fields(1) [OF sc])
  show "\<exists>l. loss_list lv' = loss_list lv @ [l]" using lv by simp
  show "itr_list lv' = itr_list lv @ [i]" using lv by simp
  show "count_ev EvOptStep (trace rt') = count_ev EvOptStep (trace rt) + 1"
    using visualize_Inr(2) [OF v] t1 t2 t5 by (simp add: count_ev_simps)
  show "count_ev EvDeconv (trace rt') = count_ev EvDeconv (trace rt)
           + (if loss_type self = Some ''deconv_loss'' then 1 else 0)"
    using visualize_Inr(3) [OF v] t1 t2 t5 by (simp add: count_ev_simps)
  show "plot_calls (trace rt') = plot_calls (trace rt) @
           (if (int i + 1) mod image_visualize_interval self = 0 then [itr_list lv @ [i]]
            else [])"
    using visualize_Inr(4) [OF v] t1 t2 t5 k by (simp add: plot_calls_append)
  show "\<exists>ps. psf_save lv' = Some ps
              \<and> (ps \<noteq> None) = ((int i + 1) mod image_visualize_interval self = 0)"
    using visualize_Inr(5) [OF v] lv k by simp
  show "image_visualize_interval self \<noteq> 0"
    using visualize_Inr(6) [OF v] k by simp
  show "loss_type self = Some ''cbr'' \<or> loss_type self = Some ''deconv_loss''"
    by (rule calculate_loss_Inr(3) [OF c])
qed

subsection \<open>The loop\<close>

lemma optim_loop_append:
  "optim_loop ex tgt (xs @ ys) lv self rt =
     (case optim_loop ex tgt xs lv self rt of
        (Inl e, self1, rt1) \<Rightarrow> (Inl e, self1, rt1)
      | (Inr lv1, self1, rt1) \<Rightarrow> optim_loop ex tgt ys lv1 self1 rt1)"
  by (induction xs arbitrary: lv self rt) (auto split: prod.splits sum.splits)

lemma optim_loop_Suc:
  assumes "optim_loop ex tgt [0..<Suc n] lv self rt = (Inr lv', self', rt')"
  obtains lv1 self1 rt1 where
    "optim_loop ex tgt [0..<n] lv self rt = (Inr lv1, self1, rt1)"
    "optim_iter ex tgt n lv1 self1 rt1 = (Inr lv', self', rt')"
proof -
  have "[0..<Suc n] = [0..<n] @ [n]" by simp
  with assms have
    "(case optim_loop ex tgt [0..<n] lv self rt of
        (Inl e, self1, rt1) \<Rightarrow> (Inl e, self1, rt1)
      | (Inr lv1, self1, rt1) \<Rightarrow> optim_loop ex tgt [n] lv1 self1 rt1) = (Inr lv', self', rt')"
    by (simp only: optim_loop_append)
  then show ?thesis
    using that by (auto split: prod.splits sum.splits)
qed

lemma optim_loop_config:
  "optim_loop ex tgt [0..<n] lv self rt = (Inr lv', self', rt') \<Longrightarrow> same_config self self'"
proof (induction n arbitrary: lv' self' rt')
  case 0
  then show ?case by (simp add: same_config_refl)
next
  case (Suc n)
  from Suc.prems obtain lv1 self1 rt1 where
    a: "optim_loop ex tgt [0..<n] lv self rt = (Inr lv1, self1, rt1)"
    and b: "optim_iter ex tgt n lv1 self1 rt1 = (Inr lv', self', rt')"
    by (rule optim_loop_Suc)
  show ?case
    using Suc.IH [OF a] optim_iter_facts(1) [OF b] by (rule same_config_trans)
qed

lemma optim_loop_history:
  "optim_loop ex tgt [0..<n] lv self rt = (Inr lv', self', rt') \<Longrightarrow>
     length (loss_list lv') = length (loss_list lv) + n \<and> itr_list lv' = itr_list lv @ [0..<n]"
proof (induction n arbitrary: lv' self' rt')
  case 0
  then show ?case by simp
next
  case (Suc n)
  from Suc.prems obtain lv1 self1 rt1 where
    a: "optim_loop ex tgt [0..<n] lv self rt = (Inr lv1, self1, rt1)"
    and b: "optim_iter ex tgt n lv1 self1 rt1 = (Inr lv', self', rt')"
    by (rule optim_loop_Suc)
  show ?case
    using Suc.IH [OF a] optim_iter_facts(2,3) [OF b] by auto
qed

lemma optim_loop_steps:
  "optim_loop ex tgt [0..<n] lv self rt = (Inr lv', self', rt') \<Longrightarrow>
     count_ev EvOptStep (trace rt') = count_ev EvOptStep (trace rt) + n
     \<and> count_ev EvDeconv (trace rt') = count_ev EvDeconv (trace rt)
           + (if loss_type self = Some ''deconv_loss'' then n else 0)"
proof (induction n arbitrary: lv' self' rt')
  case 0
  then show ?case by simp
next
  case (Suc n)
  from Suc.prems obtain lv1 self1 rt1 where
    a: "optim_loop ex tgt [0..<n] lv self rt = (Inr lv1, self1, rt1)"
    and b: "optim_iter ex tgt n lv1 self1 rt1 = (Inr lv', self', rt')"
    by (rule optim_loop_Suc)
  have "loss_type self1 = loss_type self"
    by (rule same_config_fields(2) [OF optim_loop_config [OF a]])
  then show ?case
    using Suc.IH [OF a] optim_iter_facts(4,5) [OF b] by simp
qed

lemma optim_loop_plots:
  "optim_loop ex tgt [0..<n] lv self rt = (Inr lv', self', rt') \<Longrightarrow>
     plot_calls (trace rt') = plot_calls (trace rt) @
       map (\<lambda>i. itr_list lv @ [0..<Suc i])
         (filter (\<lambda>i. (int i + 1) mod image_visualize_interval self = 0) [0..<n])"
proof (induction n arbitrary: lv' self' rt')
  case 0
  then show ?case by simp
next
  case (Suc n)
  from Suc.prems obtain lv1 self1 rt1 where
    a: "optim_loop ex tgt [0..<n] lv self rt = (Inr lv1, self1, rt1)"
    and b: "optim_iter ex tgt n lv1 self1 rt1 = (Inr lv', self', rt')"
    by (rule optim_loop_Suc)
  have k: "image_visualize_interval self1 = image_visualize_interval self"
    by (rule same_config_fields(1) [OF optim_loop_config [OF a]])
  have h: "itr_list lv1 = itr_list lv @ [0..<n]"
    using optim_loop_history [OF a] by simp
  show ?case
    using Suc.IH [OF a] optim_iter_facts(6) [OF b] k h by simp
qed

lemma optim_loop_psf_save:
  assumes "optim_loop ex tgt [0..<n] lv self rt = (Inr lv', self', rt')" and "0 < n"
  shows "\<exists>ps. psf_save lv' = Some ps
           \<and> (ps \<noteq> None) = (int n mod image_visualize_interval self = 0)"
    and "image_visualize_interval self \<noteq> 0"
proof -
  from \<open>0 < n\<close> obtain m where n: "n = Suc m" by (cases n) auto
  from assms(1) obtain lv1 self1 rt1 where
    a: "optim_loop ex tgt [0..<m] lv self rt = (Inr lv1, self1, rt1)"
    and b: "optim_iter ex tgt m lv1 self1 rt1 = (Inr lv', self', rt')"
    unfolding n by (rule optim_loop_Suc)
  have k: "image_visualize_interval self1 = image_visualize_interval self"
    by (rule same_config_fields(1) [OF optim_loop_config [OF a]])
  have e: "int m + 1 = int n" using n by simp
  show "\<exists>ps. psf_save lv' = Some ps
           \<and> (ps \<noteq> None) = (int n mod image_visualize_interval self = 0)"
    using optim_iter_facts(7) [OF b] k e by simp
  show "image_visualize_interval self \<noteq> 0"
    using optim_iter_facts(8) [OF b] k by simp
qed

subsection \<open>Evaluating whole runs of the concrete example\<close>

lemmas run0 = optim_def optim_iter_def forward_def get_psf_cases calculate_loss_cases
  update_logits_def mask_optimizer_step_def scheduler_step_def visualize_def
  save_optimized_psf_mask_def first_item_def index00_def index0_def py_range_def
  locals0_def mbo0_def tf_sub_def fmt_loss_type_def eval0

subsection \<open>The objective evaluator\<close>

text \<open>
  C3: for every \<^verbatim>\<open>loss_type\<close> other than \<^verbatim>\<open>'cbr'\<close> and \<^verbatim>\<open>'deconv_loss'\<close> (Python's
  \<^verbatim>\<open>None\<close> included) \<^verbatim>\<open>calculate_loss\<close> raises; in \<^verbatim>\<open>optim\<close> with at least one
  iteration the run ends in the first iteration (one \<^verbatim>\<open>zero_grad\<close>), with the object
  unchanged and no optimiser step taken, and the exception is the configuration error
  whenever the first forward pass returns.
\<close>

theorem bad_loss_type_raises:
  assumes "loss_type self \<noteq> Some ''cbr''" and "loss_type self \<noteq> Some ''deconv_loss''"
  shows "fst (calculate_loss ex self img tgt psf rt) = Inl Exception
    \<and> (0 < num_iters self \<longrightarrow>
         (\<exists>e rt'. optim ex tgt self rt = (Inl e, self, rt')
            \<and> count_ev EvOptStep (trace rt') = count_ev EvOptStep (trace rt)
            \<and> count_ev EvZeroGrad (trace rt') = count_ev EvZeroGrad (trace rt) + 1
            \<and> ((\<exists>r. fst (forward ex (camera self) tgt (litho_model self)
                            (emit EvZeroGrad rt)) = Inr r)
                 \<longrightarrow> e = Exception)))"
proof (intro conjI impI)
  show "fst (calculate_loss ex self img tgt psf rt) = Inl Exception"
    using assms by (simp add: calculate_loss_cases)
next
  assume n: "0 < num_iters self"
  then have r: "py_range (num_iters self) = 0 # [1..<nat (num_iters self)]"
    by (simp add: py_range_def upt_rec)
  let ?f = "forward ex (camera self) tgt (litho_model self) (emit EvZeroGrad rt)"
  obtain res rt1 where f: "?f = (res, rt1)" by (cases ?f)
  have t: "trace rt1 = trace rt @ [EvZeroGrad]
             @ (if cam_use_litho_model_flag (camera self) then [EvLitho] else [])"
    using forward_trace [of ex "camera self" tgt "litho_model self" "emit EvZeroGrad rt"] f
    by (simp add: emit_def)
  show "\<exists>e rt'. optim ex tgt self rt = (Inl e, self, rt')
            \<and> count_ev EvOptStep (trace rt') = count_ev EvOptStep (trace rt)
            \<and> count_ev EvZeroGrad (trace rt') = count_ev EvZeroGrad (trace rt) + 1
            \<and> ((\<exists>r. fst ?f = Inr r) \<longrightarrow> e = Exception)"
  proof (cases res)
    case (Inl e)
    with f have "optim ex tgt self rt = (Inl e, self, rt1)"
      by (simp add: optim_def r optim_iter_def Let_def)
    with t f Inl show ?thesis by (simp add: count_ev_simps)
  next
    case (Inr x)
    obtain a b c d e where x: "x = (a, b, c, d, e)" by (cases x) auto
    with Inr f have "optim ex tgt self rt =
        (Inl Exception, self,
         emit (EvPrint ''wrong type {}'' [fmt_loss_type (loss_type self)]) rt1)"
      using assms by (simp add: optim_def r optim_iter_def Let_def calculate_loss_cases)
    with t show ?thesis by (simp add: count_ev_simps emit_def)
  qed
qed

theorem bad_loss_type_raises_witness:
  "fst (calculate_loss ext0 (mbo0 False (Some ''bogus'') 2 1) (px 1) (px 1) (px 1) rt0)
     = Inl Exception
   \<and> fst (optim ext0 (px 1) (mbo0 False (Some ''bogus'') 2 1) rt0) = Inl Exception
   \<and> fst (snd (optim ext0 (px 1) (mbo0 False (Some ''bogus'') 2 1) rt0))
       = mbo0 False (Some ''bogus'') 2 1
   \<and> trace (snd (snd (optim ext0 (px 1) (mbo0 False (Some ''bogus'') 2 1) rt0)))
       = [EvZeroGrad, EvPrint ''wrong type {}'' [AStr ''bogus'']]"
  using bad_loss_type_raises [of "mbo0 False (Some ''bogus'') 2 1" ext0 "px 1" "px 1" "px 1" rt0]
  by (simp add: run0 upt_rec)



text \<open>
  C6: in both modes the reported structural metric is \<open>1 - raw * 2\<close> and the reported
  noise metric is \<open>- raw\<close>, of the raw metrics between the sensor image and the target
  (on finite raw values, the real numbers \<open>1 - s * 2\<close> and \<open>- p\<close>); in \<^verbatim>\<open>'deconv_loss'\<close>
  mode a second pair, of the deconvolution result and the target, follows. The metric
  lists have length 1 in \<^verbatim>\<open>'cbr'\<close> mode and 2 in \<^verbatim>\<open>'deconv_loss'\<close> mode.
\<close>

theorem calculate_loss_metrics:
  "(loss_type self = Some ''cbr'' \<longrightarrow>
      (\<exists>l d. fst (calculate_loss ex self img tgt psf rt)
         = Inr (l, d, [tf_sub (Fin 1) (tf_mul (metric_ssim ex img tgt) (Fin 2))],
                [tf_neg (metric_psnr ex img tgt)])))
   \<and> (loss_type self = Some ''deconv_loss'' \<longrightarrow>
      (\<exists>l d. fst (calculate_loss ex self img tgt psf rt)
         = Inr (l, Some d,
                [tf_sub (Fin 1) (tf_mul (metric_ssim ex img tgt) (Fin 2)),
                 tf_sub (Fin 1) (tf_mul (metric_ssim ex d tgt) (Fin 2))],
                [tf_neg (metric_psnr ex img tgt), tf_neg (metric_psnr ex d tgt)])
         \<and> d = torch_richardson_lucy_fft ex img psf))
   \<and> (\<forall>l d ms mp. fst (calculate_loss ex self img tgt psf rt) = Inr (l, d, ms, mp) \<longrightarrow>
        length ms = (if loss_type self = Some ''cbr'' then 1 else 2)
        \<and> length mp = length ms
        \<and> (\<forall>s. metric_ssim ex img tgt = Fin s \<longrightarrow> hd ms = Fin (1 - s * 2))
        \<and> (\<forall>p. metric_psnr ex img tgt = Fin p \<longrightarrow> hd mp = Fin (- p)))"
  by (auto simp: calculate_loss_cases tf_sub_def split: if_splits)

theorem calculate_loss_metrics_witness:
  "fst (calculate_loss ext0 (mbo0 False (Some ''cbr'') 1 1) (px 1) (px 1) (px 1) rt0)
     = Inr (Fin 0, None, [Fin (1 / 2)], [Fin 3])
   \<and> fst (calculate_loss ext0 (mbo0 False (Some ''deconv_loss'') 1 1) (px 1) (px 1) (px 1) rt0)
     = Inr (Fin (1 / 2), Some (px 1), [Fin (1 / 2), Fin (1 / 2)], [Fin 3, Fin 3])
   \<and> metric_ssim ext0 (px 1) (px 1) = Fin (1 / 4)
   \<and> metric_psnr ext0 (px 1) (px 1) = Fin (- 3)
   \<and> Fin (1 / 2) = Fin (1 - (1 / 4) * 2)"
  using calculate_loss_metrics [of "mbo0 False (Some ''cbr'') 1 1" ext0 "px 1" "px 1" "px 1" rt0]
        calculate_loss_metrics [of "mbo0 False (Some ''deconv_loss'') 1 1" ext0 "px 1" "px 1"
          "px 1" rt0]
  by (simp add: run0)

subsection \<open>Loading the pretrained lithography model\<close>

lemma map2_data_requires_grad:
  "length ps = length ck \<Longrightarrow>
     map requires_grad (map2 (\<lambda>p t. p\<lparr>data := t\<rparr>) ps ck) = map requires_grad ps"
  by (induction ps ck rule: list_induct2) auto

lemma load_state_dict_requires_grad:
  assumes "load_state_dict ps ck = Inr ps'"
  shows "map requires_grad ps' = map requires_grad ps"
proof -
  from assms have l: "length ps = length ck"
    and e: "ps' = map2 (\<lambda>p t. p\<lparr>data := t\<rparr>) ps ck"
    by (auto simp: load_state_dict_def split: if_splits)
  show ?thesis unfolding e by (rule map2_data_requires_grad [OF l])
qed

lemma load_pretrained_keeps_requires_grad:
  "load_pretrained_litho_model ex mc lm flag rt = (Inr lm', rt')
     \<Longrightarrow> map requires_grad lm' = map requires_grad lm"
  by (auto simp: load_pretrained_litho_model_def Let_def setattr_bool_def comp_def
           split: if_splits sum.splits dest: load_state_dict_requires_grad)

text \<open>
  C2 does not hold of the code: line 105 assigns the attribute \<^verbatim>\<open>requries_grad\<close>, so
  \<^verbatim>\<open>requires_grad\<close> stays as it was. On the example network, whose parameter has
  \<^verbatim>\<open>requires_grad\<close> set as every \<^verbatim>\<open>nn.Parameter\<close> has by default, loading with the flag
  true leaves it set and adds an attribute of the misspelt name.
\<close>

theorem litho_params_not_frozen:
  "fst (load_pretrained_litho_model ext0 ''pbl3d'' (model_selector ext0 ''pbl3d'') True rt0)
     = Inr [\<lparr>data = px 2, requires_grad = True, attrs = [''requries_grad'' \<mapsto> False]\<rparr>]"
  by (simp add: load_pretrained_litho_model_def load_state_dict_def setattr_bool_def eval0)

subsection \<open>Finalisation\<close>

lemma forward_Inr_mask:
  assumes "forward ex cam tgt lm rt = (Inr (img, psf, psum, pp, m), rt')"
  shows "m = fst (get_doe_sample ex (doe_logits cam) (rng rt))"
    and "pp = (if cam_use_litho_model_flag cam then litho_forward ex lm m else m)"
  using assms
  by (auto simp: forward_def get_psf_cases Let_def split: if_splits prod.splits sum.splits)

lemma save_optimized_psf_mask_None:
  "save_optimized_psf_mask ex self None rt =
     (Inl (if logits_to_doe_profile ex (doe_logits (camera self)) = [] then IndexError
           else AttributeError), rt)"
  by (simp add: save_optimized_psf_mask_def first_item_def Let_def split: list.splits)

lemma save_optimized_psf_mask_Inr:
  assumes "save_optimized_psf_mask ex self ps rt = (Inr ml, rt')"
  shows "ps \<noteq> None"
    and "first_item (logits_to_doe_profile ex (doe_logits (camera self))) = Inr ml"
  using assms
  by (auto simp: save_optimized_psf_mask_def Let_def split: sum.splits option.splits)

lemma optim_Inr:
  assumes "optim ex tgt self rt = (Inr (ml, pp), self', rt')"
  obtains lv rt1 ps where
    "optim_loop ex tgt (py_range (num_iters self)) locals0 self rt = (Inr lv, self', rt1)"
    "psf_save lv = Some ps" "print_pred lv = Some pp"
    "save_optimized_psf_mask ex self' ps rt1 = (Inr ml, rt')"
  using assms unfolding optim_def
  by (auto split: prod.splits sum.splits option.splits)

lemma optim_Inr_positive:
  assumes "optim ex tgt self rt = (Inr (ml, pp), self', rt')"
  shows "0 < num_iters self"
proof (rule ccontr)
  assume "\<not> 0 < num_iters self"
  then have "py_range (num_iters self) = []" by (simp add: py_range_def)
  with assms show False
    by (auto simp: optim_def locals0_def)
qed

text \<open>
  C9: \<^verbatim>\<open>optim\<close> returns only if \<^verbatim>\<open>num_iters\<close> is at least 1 and a multiple of
  \<^verbatim>\<open>image_visualize_interval\<close>. When the loop itself completes: with no iteration the
  run ends in \<^verbatim>\<open>UnboundLocalError\<close> at the call of \<^verbatim>\<open>save_optimized_psf_mask\<close>; with
  \<^verbatim>\<open>num_iters\<close> not a multiple of the interval it ends inside that method, in the
  \<^verbatim>\<open>AttributeError\<close> of \<^verbatim>\<open>None.numpy()\<close> (or, if the DOE renders an empty profile, in
  the \<^verbatim>\<open>IndexError\<close> of the line before). \<^verbatim>\<open>visualize\<close> returns a snapshot exactly on
  the iterations with \<open>(i + 1) mod interval = 0\<close> and \<^verbatim>\<open>None\<close> otherwise.
\<close>

theorem finalization_needs_last_rendering:
  "(\<forall>r. fst (optim ex tgt self rt) = Inr r \<longrightarrow>
       0 < num_iters self \<and> num_iters self mod image_visualize_interval self = 0)
   \<and> (\<forall>lv s' rt'.
         optim_loop ex tgt (py_range (num_iters self)) locals0 self rt = (Inr lv, s', rt') \<longrightarrow>
           (num_iters self \<le> 0 \<longrightarrow> optim ex tgt self rt = (Inl UnboundLocalError, s', rt'))
         \<and> (0 < num_iters self \<and> num_iters self mod image_visualize_interval self \<noteq> 0 \<longrightarrow>
              optim ex tgt self rt =
                (Inl (if logits_to_doe_profile ex (doe_logits (camera s')) = []
                      then IndexError else AttributeError), s', rt')))
   \<and> (\<forall>ps rt'. visualize ex self i m si psf d itrs ls ms mp psum l rt = (Inr ps, rt') \<longrightarrow>
         (ps \<noteq> None) = ((int i + 1) mod image_visualize_interval self = 0))"
proof (intro conjI allI impI)
  fix r
  assume a: "fst (optim ex tgt self rt) = Inr r"
  obtain ml pp where r: "r = (ml, pp)" by (cases r)
  obtain s' rt' where o: "optim ex tgt self rt = (Inr (ml, pp), s', rt')"
    using a r by (cases "optim ex tgt self rt") auto
  show "0 < num_iters self" by (rule optim_Inr_positive [OF o])
  then have n: "0 < nat (num_iters self)" by simp
  from o obtain lv rt1 ps where
    l: "optim_loop ex tgt (py_range (num_iters self)) locals0 self rt = (Inr lv, s', rt1)"
    and p: "psf_save lv = Some ps"
    and s: "save_optimized_psf_mask ex s' ps rt1 = (Inr ml, rt')"
    by (rule optim_Inr)
  from optim_loop_psf_save(1) [OF l [unfolded py_range_def] n] p
  have "(ps \<noteq> None) = (int (nat (num_iters self)) mod image_visualize_interval self = 0)"
    by simp
  with save_optimized_psf_mask_Inr(1) [OF s] \<open>0 < num_iters self\<close>
  show "num_iters self mod image_visualize_interval self = 0" by simp
next
  fix lv s' rt'
  assume l: "optim_loop ex tgt (py_range (num_iters self)) locals0 self rt = (Inr lv, s', rt')"
  assume "num_iters self \<le> 0"
  then have "py_range (num_iters self) = []" by (simp add: py_range_def)
  with l show "optim ex tgt self rt = (Inl UnboundLocalError, s', rt')"
    by (auto simp: optim_def locals0_def)
next
  fix lv s' rt'
  assume l: "optim_loop ex tgt (py_range (num_iters self)) locals0 self rt = (Inr lv, s', rt')"
  assume h: "0 < num_iters self \<and> num_iters self mod image_visualize_interval self \<noteq> 0"
  then have n: "0 < nat (num_iters self)" by simp
  from optim_loop_psf_save(1) [OF l [unfolded py_range_def] n] h
  have "psf_save lv = Some None" by auto
  with l show "optim ex tgt self rt =
      (Inl (if logits_to_doe_profile ex (doe_logits (camera s')) = []
            then IndexError else AttributeError), s', rt')"
    by (simp add: optim_def save_optimized_psf_mask_None)
next
  fix ps rt'
  assume "visualize ex self i m si psf d itrs ls ms mp psum l rt = (Inr ps, rt')"
  then show "(ps \<noteq> None) = ((int i + 1) mod image_visualize_interval self = 0)"
    by (rule visualize_Inr(5))
qed

theorem finalization_needs_last_rendering_witness:
  "fst (optim ext0 (px 1) (mbo0 False (Some ''cbr'') 3 2) rt0) = Inl AttributeError
   \<and> fst (optim ext0 (px 1) (mbo0 False (Some ''cbr'') 0 2) rt0) = Inl UnboundLocalError
   \<and> fst (optim ext0 (px 1) (mbo0 False (Some ''cbr'') 2 2) rt0) = Inr (px (- 1), px 0)
   \<and> fst (visualize ext0 (mbo0 False (Some ''cbr'') 3 2) 1 (px 1) (px 1) (px 1) None
            [0, 1] [Fin 0, Fin 0] [] [] (Fin 1) (Fin 0) rt0) = Inr (Some (Tensor [1, 1] [Fin 1]))
   \<and> fst (visualize ext0 (mbo0 False (Some ''cbr'') 3 2) 2 (px 1) (px 1) (px 1) None
            [0, 1, 2] [Fin 0, Fin 0, Fin 0] [] [] (Fin 1) (Fin 0) rt0) = Inr None"
  using finalization_needs_last_rendering [of ext0 "px 1" "mbo0 False (Some ''cbr'') 3 2" rt0
          1 "px 1" "px 1" "px 1" None "[0, 1]" "[Fin 0, Fin 0]" "[]" "[]" "Fin 1" "Fin 0"]
        finalization_needs_last_rendering [of ext0 "px 1" "mbo0 False (Some ''cbr'') 0 2" rt0
          2 "px 1" "px 1" "px 1" None "[0, 1, 2]" "[Fin 0, Fin 0, Fin 0]" "[]" "[]" "Fin 1" "Fin 0"]
        finalization_needs_last_rendering [of ext0 "px 1" "mbo0 False (Some ''cbr'') 2 2" rt0
          2 "px 1" "px 1" "px 1" None "[0, 1, 2]" "[Fin 0, Fin 0, Fin 0]" "[]" "[]" "Fin 1" "Fin 0"]
  by (simp add: run0 upt_rec)

text \<open>
  C10: when \<^verbatim>\<open>optim\<close> returns, the print prediction it returns is the one of the last
  iteration's forward pass, computed from the logits as they were after all iterations
  but the last; the mask profile it returns is rendered from the logits after the last
  optimiser step, which is AdamW's update of those earlier logits.
\<close>

theorem optim_returns_stale_print_pred:
  assumes "optim ex tgt self rt = (Inr (mask_logits, pp), self', rt')"
  shows "0 < num_iters self \<and>
    (\<exists>lv0 s0 rt0 img psf psum m rt1.
        optim_loop ex tgt (py_range (num_iters self - 1)) locals0 self rt = (Inr lv0, s0, rt0)
      \<and> forward ex (camera s0) tgt (litho_model s0) (emit EvZeroGrad rt0)
          = (Inr (img, psf, psum, pp, m), rt1)
      \<and> m = fst (get_doe_sample ex (doe_logits (camera s0)) (rng rt0))
      \<and> pp = (if cam_use_litho_model_flag (camera s0) then litho_forward ex (litho_model s0) m
              else m)
      \<and> doe_logits (camera self') =
          fst (adamw_update ex (opt_lr (mask_optimizer s0)) (opt_state (mask_optimizer s0))
                 (doe_logits (camera s0))
                 (autograd ex (loss_type s0) (cam_use_litho_model_flag (camera s0))
                    (doe_logits (camera s0)) (litho_model s0) (rng rt0) tgt))
      \<and> first_item (logits_to_doe_profile ex (doe_logits (camera self'))) = Inr mask_logits)"
proof -
  have pos: "0 < num_iters self" by (rule optim_Inr_positive [OF assms])
  then obtain k where k: "nat (num_iters self) = Suc k" by (cases "nat (num_iters self)") auto
  then have "nat (num_iters self - 1) = k" by arith
  then have k': "py_range (num_iters self - 1) = [0..<k]" by (simp add: py_range_def)
  from assms obtain lv rt2 ps where
    l: "optim_loop ex tgt (py_range (num_iters self)) locals0 self rt = (Inr lv, self', rt2)"
    and pp: "print_pred lv = Some pp"
    and s: "save_optimized_psf_mask ex self' ps rt2 = (Inr mask_logits, rt')"
    by (rule optim_Inr)
  from l have "optim_loop ex tgt [0..<Suc k] locals0 self rt = (Inr lv, self', rt2)"
    by (simp add: py_range_def k)
  then obtain lv0 s0 rt0 where
    a: "optim_loop ex tgt [0..<k] locals0 self rt = (Inr lv0, s0, rt0)"
    and b: "optim_iter ex tgt k lv0 s0 rt0 = (Inr lv, self', rt2)"
    by (rule optim_loop_Suc)
  from b obtain img psf psum pp' m rt1 lo d ms mp rt3 u rt5 ps' where
    f: "forward ex (camera s0) tgt (litho_model s0) (emit EvZeroGrad rt0)
          = (Inr (img, psf, psum, pp', m), rt1)"
    and u: "update_logits ex tgt (rng rt0) s0 rt3 = (Inr u, self', rt5)"
    and lv: "lv = lv0\<lparr>loss_list := loss_list lv0 @ [lo], itr_list := itr_list lv0 @ [k],
              psf_save := Some ps', print_pred := Some pp'\<rparr>"
    by (rule optim_iter_Inr)
  from lv pp have e: "pp' = pp" by simp
  have r: "rng (emit EvZeroGrad rt0) = rng rt0" by (simp add: emit_def)
  show ?thesis
    using pos a f [unfolded e] forward_Inr_mask [OF f [unfolded e]] r
          update_logits_Inr(4) [OF u] save_optimized_psf_mask_Inr(2) [OF s]
    by (auto simp: k')
qed

theorem optim_returns_stale_print_pred_witness:
  "fst (optim ext0 (px 1) (mbo0 False (Some ''cbr'') 2 2) rt0) = Inr (px (- 1), px 0)
   \<and> doe_logits (camera (fst (snd (optim ext0 (px 1) (mbo0 False (Some ''cbr'') 2 2) rt0))))
       = px (- 1)
   \<and> doe_logits (camera (fst (snd
        (optim_loop ext0 (px 1) (py_range 1) locals0 (mbo0 False (Some ''cbr'') 2 2) rt0))))
       = px 0"
proof -
  let ?X = "optim ext0 (px 1) (mbo0 False (Some ''cbr'') 2 2) rt0"
  have "fst ?X = Inr (px (- 1), px 0)" by (simp add: run0 upt_rec)
  then have h: "?X = (Inr (px (- 1), px 0), fst (snd ?X), snd (snd ?X))"
    by (metis prod.collapse)
  from optim_returns_stale_print_pred [OF h] show ?thesis
    by (simp add: run0 upt_rec)
qed

subsection \<open>The configured noise coefficients\<close>

lemma calculate_loss_cam:
  "calculate_loss ex (self\<lparr>cam_a_poisson := a, cam_b_sqrt := b\<rparr>) img tgt psf rt
     = calculate_loss ex self img tgt psf rt"
  by (simp add: calculate_loss_cases)

lemma visualize_cam:
  "visualize ex (self\<lparr>cam_a_poisson := a, cam_b_sqrt := b\<rparr>) i m si psf d itrs ls ms mp psum l rt
     = visualize ex self i m si psf d itrs ls ms mp psum l rt"
  by (simp add: visualize_def)

lemma update_logits_cam:
  "update_logits ex tgt r0 (self\<lparr>cam_a_poisson := a, cam_b_sqrt := b\<rparr>) rt =
     (case update_logits ex tgt r0 self rt of
        (r, s, rt') \<Rightarrow> (r, s\<lparr>cam_a_poisson := a, cam_b_sqrt := b\<rparr>, rt'))"
  by (simp add: update_logits_def mask_optimizer_step_def scheduler_step_def Let_def
           split: prod.splits option.splits)

lemma optim_iter_cam:
  "optim_iter ex tgt i lv (self\<lparr>cam_a_poisson := a, cam_b_sqrt := b\<rparr>) rt =
     (case optim_iter ex tgt i lv self rt of
        (r, s, rt') \<Rightarrow> (r, s\<lparr>cam_a_poisson := a, cam_b_sqrt := b\<rparr>, rt'))"
  unfolding optim_iter_def
  by (simp add: calculate_loss_cam visualize_cam update_logits_cam Let_def
           split: prod.splits sum.splits)

lemma optim_loop_cam:
  "optim_loop ex tgt xs lv (self\<lparr>cam_a_poisson := a, cam_b_sqrt := b\<rparr>) rt =
     (case optim_loop ex tgt xs lv self rt of
        (r, s, rt') \<Rightarrow> (r, s\<lparr>cam_a_poisson := a, cam_b_sqrt := b\<rparr>, rt'))"
proof (induction xs arbitrary: lv self rt)
  case Nil
  then show ?case by simp
next
  case (Cons i xs)
  show ?case
    by (simp add: optim_iter_cam Cons.IH split: prod.splits sum.splits)
qed

lemma save_optimized_psf_mask_cam:
  "save_optimized_psf_mask ex (self\<lparr>cam_a_poisson := a, cam_b_sqrt := b\<rparr>) ps rt
     = save_optimized_psf_mask ex self ps rt"
  by (simp add: save_optimized_psf_mask_def Let_def split: sum.splits option.splits)

lemma optim_cam:
  "optim ex tgt (self\<lparr>cam_a_poisson := a, cam_b_sqrt := b\<rparr>) rt =
     (case optim ex tgt self rt of
        (r, s, rt') \<Rightarrow> (r, s\<lparr>cam_a_poisson := a, cam_b_sqrt := b\<rparr>, rt'))"
  unfolding optim_def
  by (simp add: optim_loop_cam save_optimized_psf_mask_cam
           split: prod.splits sum.splits option.splits)

lemma forward_noise:
  assumes "forward ex cam tgt lm rt = (Inr (img, psf, psum, pp, m), rt')"
  shows "torch_add (conv2d ex tgt psf)
           (fst (sensor_noise ex (conv2d ex tgt psf) 0.004 0.02
                   (rng (snd (get_psf ex cam lm rt))))) = Inr img"
  using assms
  by (auto simp: forward_def Let_def split: prod.splits sum.splits)

lemma MBOLens_init_cam:
  "MBOLens_init ex mc flag n rate us k a b sd lt rt =
     (case MBOLens_init ex mc flag n rate us k a2 b2 sd lt rt of
        (Inl e, r) \<Rightarrow> (Inl e, r)
      | (Inr s, r) \<Rightarrow> (Inr (s\<lparr>cam_a_poisson := a, cam_b_sqrt := b\<rparr>), r))"
  by (simp add: MBOLens_init_def initialize_optimization_def split: prod.splits sum.splits)

text \<open>
  C5: the noise added in \<^verbatim>\<open>forward\<close> is \<^verbatim>\<open>sensor_noise(sensor_img, 0.004, 0.02)\<close>.
  \<^verbatim>\<open>cam_a_poisson\<close> and \<^verbatim>\<open>cam_b_sqrt\<close> are stored by \<^verbatim>\<open>__init__\<close> and read nowhere:
  two objects built with different values for them differ in these two fields only, the
  forward pass on them is the same, and so is the whole of \<^verbatim>\<open>optim\<close>: result, trace,
  generator and object, up to the two fields.
\<close>

theorem cam_noise_coefficients_unused:
  "optim ex tgt (self\<lparr>cam_a_poisson := a, cam_b_sqrt := b\<rparr>) rt =
     (case optim ex tgt self rt of
        (r, s, rt') \<Rightarrow> (r, s\<lparr>cam_a_poisson := a, cam_b_sqrt := b\<rparr>, rt'))
   \<and> forward ex (camera (self\<lparr>cam_a_poisson := a, cam_b_sqrt := b\<rparr>)) tgt
        (litho_model (self\<lparr>cam_a_poisson := a, cam_b_sqrt := b\<rparr>)) rt
       = forward ex (camera self) tgt (litho_model self) rt
   \<and> (\<forall>img psf psum pp m rt'.
         forward ex cam tgt lm rt = (Inr (img, psf, psum, pp, m), rt') \<longrightarrow>
         torch_add (conv2d ex tgt psf)
           (fst (sensor_noise ex (conv2d ex tgt psf) 0.004 0.02
                   (rng (snd (get_psf ex cam lm rt))))) = Inr img)
   \<and> MBOLens_init ex mc flag n rate us k a b sd lt rt =
       (case MBOLens_init ex mc flag n rate us k a2 b2 sd lt rt of
          (Inl e, r) \<Rightarrow> (Inl e, r)
        | (Inr s, r) \<Rightarrow> (Inr (s\<lparr>cam_a_poisson := a, cam_b_sqrt := b\<rparr>), r))"
proof (intro conjI allI impI)
  show "optim ex tgt (self\<lparr>cam_a_poisson := a, cam_b_sqrt := b\<rparr>) rt =
     (case optim ex tgt self rt of
        (r, s, rt') \<Rightarrow> (r, s\<lparr>cam_a_poisson := a, cam_b_sqrt := b\<rparr>, rt'))"
    by (rule optim_cam)
  show "forward ex (camera (self\<lparr>cam_a_poisson := a, cam_b_sqrt := b\<rparr>)) tgt
        (litho_model (self\<lparr>cam_a_poisson := a, cam_b_sqrt := b\<rparr>)) rt
       = forward ex (camera self) tgt (litho_model self) rt"
    by simp
  show "MBOLens_init ex mc flag n rate us k a b sd lt rt =
       (case MBOLens_init ex mc flag n rate us k a2 b2 sd lt rt of
          (Inl e, r) \<Rightarrow> (Inl e, r)
        | (Inr s, r) \<Rightarrow> (Inr (s\<lparr>cam_a_poisson := a, cam_b_sqrt := b\<rparr>), r))"
    by (rule MBOLens_init_cam)
next
  fix img psf psum pp m rt'
  assume "forward ex cam tgt lm rt = (Inr (img, psf, psum, pp, m), rt')"
  then show "torch_add (conv2d ex tgt psf)
           (fst (sensor_noise ex (conv2d ex tgt psf) 0.004 0.02
                   (rng (snd (get_psf ex cam lm rt))))) = Inr img"
    by (rule forward_noise)
qed

theorem cam_noise_coefficients_unused_witness:
  "fst (optim ext0 (px 1)
          ((mbo0 False (Some ''cbr'') 1 1)\<lparr>cam_a_poisson := 5, cam_b_sqrt := 7\<rparr>) rt0)
     = Inr (px 0, px 1)
   \<and> fst (optim ext0 (px 1) (mbo0 False (Some ''cbr'') 1 1) rt0) = Inr (px 0, px 1)
   \<and> fst (forward ext0 (cam0 False) (px 1) [] rt0) = Inr (px 1, px 1, Fin 1, px 1, px 1)
   \<and> torch_add (conv2d ext0 (px 1) (px 1))
        (fst (sensor_noise ext0 (conv2d ext0 (px 1) (px 1)) 0.004 0.02 ())) = Inr (px 1)"
  using cam_noise_coefficients_unused [where ex = ext0 and tgt = "px 1"
          and self = "mbo0 False (Some ''cbr'') 1 1" and a = 5 and b = 7 and rt = rt0
          and cam = "cam0 False" and lm = "[]"]
  by (simp add: run0)

subsection \<open>Rendering does not steer the run\<close>

lemma calculate_loss_interval:
  "calculate_loss ex (self\<lparr>image_visualize_interval := k\<rparr>) img tgt psf rt
     = calculate_loss ex self img tgt psf rt"
  by (simp add: calculate_loss_cases)

lemma update_logits_interval:
  "update_logits ex tgt r0 (self\<lparr>image_visualize_interval := k\<rparr>) rt =
     (case update_logits ex tgt r0 self rt of
        (r, s, rt') \<Rightarrow> (r, s\<lparr>image_visualize_interval := k\<rparr>, rt'))"
  by (simp add: update_logits_def mask_optimizer_step_def scheduler_step_def Let_def
           split: prod.splits option.splits)

lemma optim_iter_sim:
  assumes a: "optim_iter ex tgt i lv self rt = (Inr lv', s', rt')"
    and b: "optim_iter ex tgt i lv2 (self\<lparr>image_visualize_interval := k2\<rparr>) rt2
              = (Inr lv2', s2', rt2')"
    and r: "rng rt2 = rng rt"
    and h: "loss_list lv2 = loss_list lv" "itr_list lv2 = itr_list lv"
  shows "s2' = s'\<lparr>image_visualize_interval := k2\<rparr> \<and> rng rt2' = rng rt'
    \<and> loss_list lv2' = loss_list lv' \<and> itr_list lv2' = itr_list lv'
    \<and> print_pred lv2' = print_pred lv'"
proof -
  from a obtain img psf psum pp m rt1 l d ms mp rt3 u rt5 ps where
    f1: "forward ex (camera self) tgt (litho_model self) (emit EvZeroGrad rt)
          = (Inr (img, psf, psum, pp, m), rt1)"
    and c1: "calculate_loss ex self img tgt psf rt1 = (Inr (l, d, ms, mp), rt3)"
    and u1: "update_logits ex tgt (rng rt) self rt3 = (Inr u, s', rt5)"
    and v1: "visualize ex s' i m img psf d (itr_list lv @ [i]) (loss_list lv @ [l]) ms mp
              psum l rt5 = (Inr ps, rt')"
    and e1: "lv' = lv\<lparr>loss_list := loss_list lv @ [l], itr_list := itr_list lv @ [i],
              psf_save := Some ps, print_pred := Some pp\<rparr>"
    by (rule optim_iter_Inr)
  from b obtain imgb psfb psumb ppb mb rt1b lb db msb mpb rt3b ub rt5b psb where
    f2: "forward ex (camera self) tgt (litho_model self) (emit EvZeroGrad rt2)
          = (Inr (imgb, psfb, psumb, ppb, mb), rt1b)"
    and c2: "calculate_loss ex self imgb tgt psfb rt1b = (Inr (lb, db, msb, mpb), rt3b)"
    and u2: "update_logits ex tgt (rng rt2) (self\<lparr>image_visualize_interval := k2\<rparr>) rt3b
              = (Inr ub, s2', rt5b)"
    and v2: "visualize ex s2' i mb imgb psfb db (itr_list lv2 @ [i]) (loss_list lv2 @ [lb])
              msb mpb psumb lb rt5b = (Inr psb, rt2')"
    and e2: "lv2' = lv2\<lparr>loss_list := loss_list lv2 @ [lb], itr_list := itr_list lv2 @ [i],
              psf_save := Some psb, print_pred := Some ppb\<rparr>"
    by (rule optim_iter_Inr) (simp add: calculate_loss_interval)
  have rz: "rng (emit EvZeroGrad rt2) = rng (emit EvZeroGrad rt)"
    using r by (simp add: emit_def)
  from forward_rng [OF rz, of ex "camera self" tgt "litho_model self"] f1 f2
  have feq: "imgb = img" "psfb = psf" "psumb = psum" "ppb = pp" "mb = m"
    and r1: "rng rt1b = rng rt1"
    by simp_all
  from calculate_loss_indep [of ex self img tgt psf rt1b rt1] c1 c2
  have ceq: "lb = l" "db = d" "msb = ms" "mpb = mp"
    by (simp_all add: feq)
  have r3: "rng rt3b = rng rt3"
    using calculate_loss_Inr(1) [OF c1] calculate_loss_Inr(1) [OF c2] r1 by simp
  from u2 have "update_logits ex tgt (rng rt) (self\<lparr>image_visualize_interval := k2\<rparr>) rt3b
              = (Inr ub, s2', rt5b)"
    by (simp add: r)
  then have "s2' = (fst (snd (update_logits ex tgt (rng rt) self rt3b)))
                     \<lparr>image_visualize_interval := k2\<rparr>"
    by (auto simp: update_logits_interval split: prod.splits)
  also have "fst (snd (update_logits ex tgt (rng rt) self rt3b))
               = fst (snd (update_logits ex tgt (rng rt) self rt3))"
    by (rule update_logits_indep(2))
  also have "\<dots> = s'" using u1 by simp
  finally have seq: "s2' = s'\<lparr>image_visualize_interval := k2\<rparr>" .
  have r5: "rng rt5b = rng rt5"
    using update_logits_Inr(1) [OF u1] update_logits_Inr(1) [OF u2] r3 by simp
  have r6: "rng rt2' = rng rt'"
    using visualize_Inr(1) [OF v1] visualize_Inr(1) [OF v2] r5 by simp
  show ?thesis
    using seq r6 e1 e2 h feq ceq by simp
qed

lemma optim_loop_sim:
  assumes "optim_loop ex tgt [0..<n] lv self rt = (Inr lv', s', rt')"
    and "optim_loop ex tgt [0..<n] lv2 (self\<lparr>image_visualize_interval := k2\<rparr>) rt2
           = (Inr lv2', s2', rt2')"
    and "rng rt2 = rng rt"
    and "loss_list lv2 = loss_list lv" "itr_list lv2 = itr_list lv"
        "print_pred lv2 = print_pred lv"
  shows "s2' = s'\<lparr>image_visualize_interval := k2\<rparr> \<and> rng rt2' = rng rt'
    \<and> loss_list lv2' = loss_list lv' \<and> itr_list lv2' = itr_list lv'
    \<and> print_pred lv2' = print_pred lv'"
  using assms
proof (induction n arbitrary: lv' s' rt' lv2' s2' rt2')
  case 0
  then show ?case by simp
next
  case (Suc n)
  from Suc.prems(1) obtain lv1 s1 rt1 where
    a1: "optim_loop ex tgt [0..<n] lv self rt = (Inr lv1, s1, rt1)"
    and b1: "optim_iter ex tgt n lv1 s1 rt1 = (Inr lv', s', rt')"
    by (rule optim_loop_Suc)
  from Suc.prems(2) obtain lv1b s1b rt1b where
    a2: "optim_loop ex tgt [0..<n] lv2 (self\<lparr>image_visualize_interval := k2\<rparr>) rt2
           = (Inr lv1b, s1b, rt1b)"
    and b2: "optim_iter ex tgt n lv1b s1b rt1b = (Inr lv2', s2', rt2')"
    by (rule optim_loop_Suc)
  from Suc.IH [OF a1 a2 Suc.prems(3-6)]
  have i: "s1b = s1\<lparr>image_visualize_interval := k2\<rparr>" "rng rt1b = rng rt1"
    "loss_list lv1b = loss_list lv1" "itr_list lv1b = itr_list lv1"
    by simp_all
  show ?case
    by (rule optim_iter_sim [OF b1 b2 [unfolded i(1)] i(2) i(3) i(4)])
qed

text \<open>
  C8: a loop that completes has run the iterations \<open>0, \<dots>, num_iters - 1\<close> in order: the
  iteration history is exactly this list, the loss history has one value per iteration,
  and \<^verbatim>\<open>mask_optimizer.step()\<close> was called \<^verbatim>\<open>num_iters\<close> times; each single iteration
  that completes makes one optimiser step and appends one loss and its index. The
  diagnostics are rendered on exactly the iterations with \<open>(i + 1) mod interval = 0\<close>
  (\<^verbatim>\<open>plot_loss\<close> is called there, with the history up to that iteration). Rendering does
  not steer the run: with any other interval and any earlier trace, a loop that
  completes yields the same losses, indices and print prediction, the same object up to
  the interval, and the same generator state.
\<close>

theorem optim_loop_iterations:
  assumes "optim_loop ex tgt (py_range (num_iters self)) locals0 self rt = (Inr lv, self', rt')"
  shows "length (loss_list lv) = nat (num_iters self)
    \<and> itr_list lv = py_range (num_iters self)
    \<and> count_ev EvOptStep (trace rt') = count_ev EvOptStep (trace rt) + nat (num_iters self)
    \<and> plot_calls (trace rt') = plot_calls (trace rt) @
        map (\<lambda>i. [0..<Suc i])
          (filter (\<lambda>i. (int i + 1) mod image_visualize_interval self = 0)
             (py_range (num_iters self)))
    \<and> (\<forall>i lv0 s0 rt0 lv1 s1 rt1.
          optim_iter ex tgt i lv0 s0 rt0 = (Inr lv1, s1, rt1) \<longrightarrow>
            count_ev EvOptStep (trace rt1) = count_ev EvOptStep (trace rt0) + 1
            \<and> length (loss_list lv1) = length (loss_list lv0) + 1
            \<and> itr_list lv1 = itr_list lv0 @ [i])
    \<and> (\<forall>k2 t2 lv2 s2 rt2.
          optim_loop ex tgt (py_range (num_iters self)) locals0
            (self\<lparr>image_visualize_interval := k2\<rparr>) (rt\<lparr>trace := t2\<rparr>) = (Inr lv2, s2, rt2) \<longrightarrow>
            loss_list lv2 = loss_list lv \<and> itr_list lv2 = itr_list lv
            \<and> print_pred lv2 = print_pred lv
            \<and> s2 = self'\<lparr>image_visualize_interval := k2\<rparr> \<and> rng rt2 = rng rt')"
proof (intro conjI allI impI)
  note l = assms [unfolded py_range_def]
  show "length (loss_list lv) = nat (num_iters self)"
    using optim_loop_history [OF l] by (simp add: locals0_def)
  show "itr_list lv = py_range (num_iters self)"
    using optim_loop_history [OF l] by (simp add: locals0_def py_range_def)
  show "count_ev EvOptStep (trace rt') = count_ev EvOptStep (trace rt) + nat (num_iters self)"
    using optim_loop_steps [OF l] by simp
  show "plot_calls (trace rt') = plot_calls (trace rt) @
        map (\<lambda>i. [0..<Suc i])
          (filter (\<lambda>i. (int i + 1) mod image_visualize_interval self = 0)
             (py_range (num_iters self)))"
    using optim_loop_plots [OF l] by (simp add: locals0_def py_range_def)
next
  fix i lv0 s0 rt0 lv1 s1 rt1
  assume b: "optim_iter ex tgt i lv0 s0 rt0 = (Inr lv1, s1, rt1)"
  show "count_ev EvOptStep (trace rt1) = count_ev EvOptStep (trace rt0) + 1"
    by (rule optim_iter_facts(4) [OF b])
  show "length (loss_list lv1) = length (loss_list lv0) + 1"
    using optim_iter_facts(2) [OF b] by auto
  show "itr_list lv1 = itr_list lv0 @ [i]"
    by (rule optim_iter_facts(3) [OF b])
next
  fix k2 t2 lv2 s2 rt2
  assume "optim_loop ex tgt (py_range (num_iters self)) locals0
            (self\<lparr>image_visualize_interval := k2\<rparr>) (rt\<lparr>trace := t2\<rparr>) = (Inr lv2, s2, rt2)"
  then have c: "optim_loop ex tgt [0..<nat (num_iters self)] locals0
            (self\<lparr>image_visualize_interval := k2\<rparr>) (rt\<lparr>trace := t2\<rparr>) = (Inr lv2, s2, rt2)"
    by (simp add: py_range_def)
  have s: "s2 = self'\<lparr>image_visualize_interval := k2\<rparr> \<and> rng rt2 = rng rt'
    \<and> loss_list lv2 = loss_list lv \<and> itr_list lv2 = itr_list lv
    \<and> print_pred lv2 = print_pred lv"
    by (rule optim_loop_sim [OF assms [unfolded py_range_def] c]) simp_all
  show "loss_list lv2 = loss_list lv" using s by simp
  show "itr_list lv2 = itr_list lv" using s by simp
  show "print_pred lv2 = print_pred lv" using s by simp
  show "s2 = self'\<lparr>image_visualize_interval := k2\<rparr>" using s by simp
  show "rng rt2 = rng rt'" using s by simp
qed

theorem optim_loop_iterations_witness:
  "fst (optim_loop ext0 (px 1) (py_range 2) locals0 (mbo0 False (Some ''cbr'') 2 1) rt0)
     = Inr \<lparr>loss_list = [Fin 0, Fin 0], itr_list = [0, 1],
            psf_save = Some (Some (Tensor [1, 1] [Fin 0])), print_pred = Some (px 0)\<rparr>
   \<and> count_ev EvOptStep (trace (snd (snd
        (optim_loop ext0 (px 1) (py_range 2) locals0 (mbo0 False (Some ''cbr'') 2 1) rt0)))) = 2
   \<and> plot_calls (trace (snd (snd
        (optim_loop ext0 (px 1) (py_range 2) locals0 (mbo0 False (Some ''cbr'') 2 1) rt0))))
       = [[0], [0, 1]]
   \<and> fst (optim_loop ext0 (px 1) (py_range 2) locals0 (mbo0 False (Some ''cbr'') 2 5) rt0)
     = Inr \<lparr>loss_list = [Fin 0, Fin 0], itr_list = [0, 1],
            psf_save = Some None, print_pred = Some (px 0)\<rparr>
   \<and> plot_calls (trace (snd (snd
        (optim_loop ext0 (px 1) (py_range 2) locals0 (mbo0 False (Some ''cbr'') 2 5) rt0)))) = []
   \<and> doe_logits (camera (fst (snd
        (optim_loop ext0 (px 1) (py_range 2) locals0 (mbo0 False (Some ''cbr'') 2 5) rt0))))
       = px (- 1)
   \<and> doe_logits (camera (fst (snd
        (optim_loop ext0 (px 1) (py_range 2) locals0 (mbo0 False (Some ''cbr'') 2 1) rt0))))
       = px (- 1)"
proof -
  let ?S = "mbo0 False (Some ''cbr'') 2 1"
  let ?X = "optim_loop ext0 (px 1) (py_range (num_iters ?S)) locals0 ?S rt0"
  have "fst ?X = Inr \<lparr>loss_list = [Fin 0, Fin 0], itr_list = [0, 1],
            psf_save = Some (Some (Tensor [1, 1] [Fin 0])), print_pred = Some (px 0)\<rparr>"
    by (simp add: run0 upt_rec)
  then have h: "?X = (Inr \<lparr>loss_list = [Fin 0, Fin 0], itr_list = [0, 1],
            psf_save = Some (Some (Tensor [1, 1] [Fin 0])), print_pred = Some (px 0)\<rparr>,
            fst (snd ?X), snd (snd ?X))"
    by (metis prod.collapse)
  note F = optim_loop_iterations [OF h]
  let ?Y = "optim_loop ext0 (px 1) (py_range (num_iters ?S)) locals0
              (?S\<lparr>image_visualize_interval := 5\<rparr>) (rt0\<lparr>trace := []\<rparr>)"
  have "fst ?Y = Inr \<lparr>loss_list = [Fin 0, Fin 0], itr_list = [0, 1],
            psf_save = Some None, print_pred = Some (px 0)\<rparr>"
    by (simp add: run0 upt_rec)
  then have hy: "?Y = (Inr \<lparr>loss_list = [Fin 0, Fin 0], itr_list = [0, 1],
            psf_save = Some None, print_pred = Some (px 0)\<rparr>, fst (snd ?Y), snd (snd ?Y))"
    by (metis prod.collapse)
  note F1 = F [THEN conjunct1]
  note F3 = F [THEN conjunct2, THEN conjunct2, THEN conjunct1]
  note F4 = F [THEN conjunct2, THEN conjunct2, THEN conjunct2, THEN conjunct1]
  note F6 = F [THEN conjunct2, THEN conjunct2, THEN conjunct2, THEN conjunct2, THEN conjunct2,
               rule_format, OF hy]
  show ?thesis
    using F1 F3 F4 F6 by (simp add: run0 upt_rec count_ev_simps)
qed

subsection \<open>A NaN in the PSF halts the run\<close>

lemma get_psf_nan:
  assumes "torch_isnan_any (computed_psf ex cam lm (rng rt))"
  shows "get_psf ex cam lm rt = (Inl RuntimeError, snd (get_psf ex cam lm rt))"
    and "trace (snd (get_psf ex cam lm rt)) =
           trace rt @ (if cam_use_litho_model_flag cam then [EvLitho] else [])"
  using assms by (auto simp: get_psf_cases Let_def emit_def)

lemma get_psf_Inr:
  assumes "fst (get_psf ex cam lm rt) = Inr (psf, psf_sum, pp, m)"
  shows "\<not> torch_isnan_any psf"
    and "psf = torch_pow2 (torch_abs (lens_model ex pp))"
    and "psf = computed_psf ex cam lm (rng rt)"
  using assms by (auto simp: get_psf_cases Let_def split: if_splits)

lemma forward_get_psf_Inl:
  "get_psf ex cam lm rt = (Inl e, rt1) \<Longrightarrow> forward ex cam tgt lm rt = (Inl e, rt1)"
  by (simp add: forward_def)

lemma forward_Inr_get_psf:
  assumes "fst (forward ex cam tgt lm rt) = Inr (img, psf, psf_sum, pp, m)"
  shows "fst (get_psf ex cam lm rt) = Inr (psf, psf_sum, pp, m)"
  using assms
  by (auto simp: forward_def Let_def split: prod.splits sum.splits)

lemma optim_iter_forward_Inl:
  "forward ex (camera self) tgt (litho_model self) (emit EvZeroGrad rt) = (Inl e, rt1)
     \<Longrightarrow> optim_iter ex tgt i lv self rt = (Inl e, self, rt1)"
  by (simp add: optim_iter_def Let_def)

lemma optim_loop_halts:
  assumes "k < n"
    and "optim_loop ex tgt [0..<k] lv self rt = (Inr lv1, s1, rt1)"
    and "optim_iter ex tgt k lv1 s1 rt1 = (Inl e, s2, rt2)"
  shows "optim_loop ex tgt [0..<n] lv self rt = (Inl e, s2, rt2)"
proof -
  from \<open>k < n\<close> have "[0..<n] = [0..<k] @ k # [Suc k..<n]"
    by (metis le_add1 less_imp_add_positive plus_nat.add_0 upt_add_eq_append upt_conv_Cons)
  then show ?thesis
    using assms(2,3) by (simp add: optim_loop_append)
qed

lemma optim_loop_Inl:
  "optim_loop ex tgt (py_range (num_iters self)) locals0 self rt = (Inl e, s1, rt1)
     \<Longrightarrow> optim ex tgt self rt = (Inl e, s1, rt1)"
  by (simp add: optim_def)

text \<open>
  C1, amended: after the PSF is computed from the print prediction, \<^verbatim>\<open>get_psf\<close> raises
  if any element of the PSF is NaN, and so does \<^verbatim>\<open>forward\<close>; nothing catches the
  exception: in whichever iteration of \<^verbatim>\<open>optim\<close> the computed PSF holds a NaN, that
  iteration, the loop and \<^verbatim>\<open>optim\<close> end with this \<^verbatim>\<open>RuntimeError\<close>, the object as it
  was before the iteration, and nothing done after the forward pass (no optimiser step,
  no file written). Hence a PSF returned by \<^verbatim>\<open>get_psf\<close> or by \<^verbatim>\<open>forward\<close> holds no
  NaN element, and it is the squared modulus of the lens's field of the returned print
  prediction. Infinite elements are not checked.
\<close>

theorem get_psf_nan_check:
  "(torch_isnan_any (computed_psf ex cam lm (rng rt)) \<longrightarrow>
        fst (get_psf ex cam lm rt) = Inl RuntimeError
      \<and> fst (forward ex cam tgt lm rt) = Inl RuntimeError)
   \<and> (\<forall>psf psf_sum pp m. fst (get_psf ex cam lm rt) = Inr (psf, psf_sum, pp, m)
          \<longrightarrow> \<not> torch_isnan_any psf \<and> psf = torch_pow2 (torch_abs (lens_model ex pp))
              \<and> psf = computed_psf ex cam lm (rng rt))
   \<and> (\<forall>img psf psf_sum pp m. fst (forward ex cam tgt lm rt) = Inr (img, psf, psf_sum, pp, m)
          \<longrightarrow> \<not> torch_isnan_any psf \<and> psf = computed_psf ex cam lm (rng rt))
   \<and> (\<forall>k lv1 s1 rt1.
         k < nat (num_iters self) \<longrightarrow>
         optim_loop ex tgt [0..<k] locals0 self rt = (Inr lv1, s1, rt1) \<longrightarrow>
         torch_isnan_any (computed_psf ex (camera s1) (litho_model s1) (rng rt1)) \<longrightarrow>
           (\<exists>rt'. optim_iter ex tgt k lv1 s1 rt1 = (Inl RuntimeError, s1, rt')
              \<and> optim_loop ex tgt (py_range (num_iters self)) locals0 self rt
                  = (Inl RuntimeError, s1, rt')
              \<and> optim ex tgt self rt = (Inl RuntimeError, s1, rt')
              \<and> trace rt' = trace rt1 @ [EvZeroGrad]
                   @ (if cam_use_litho_model_flag (camera s1) then [EvLitho] else [])))"
proof (intro conjI allI impI)
  assume n: "torch_isnan_any (computed_psf ex cam lm (rng rt))"
  show "fst (get_psf ex cam lm rt) = Inl RuntimeError"
    using get_psf_nan(1) [OF n] by (metis fst_conv)
  show "fst (forward ex cam tgt lm rt) = Inl RuntimeError"
    using forward_get_psf_Inl [OF get_psf_nan(1) [OF n]] by simp
next
  fix psf psf_sum pp m
  assume g: "fst (get_psf ex cam lm rt) = Inr (psf, psf_sum, pp, m)"
  show "\<not> torch_isnan_any psf" by (rule get_psf_Inr(1) [OF g])
  show "psf = torch_pow2 (torch_abs (lens_model ex pp))" by (rule get_psf_Inr(2) [OF g])
  show "psf = computed_psf ex cam lm (rng rt)" by (rule get_psf_Inr(3) [OF g])
next
  fix img psf psf_sum pp m
  assume "fst (forward ex cam tgt lm rt) = Inr (img, psf, psf_sum, pp, m)"
  then have g: "fst (get_psf ex cam lm rt) = Inr (psf, psf_sum, pp, m)"
    by (rule forward_Inr_get_psf)
  show "\<not> torch_isnan_any psf" by (rule get_psf_Inr(1) [OF g])
  show "psf = computed_psf ex cam lm (rng rt)" by (rule get_psf_Inr(3) [OF g])
next
  fix k lv1 s1 rt1
  assume k: "k < nat (num_iters self)"
    and a: "optim_loop ex tgt [0..<k] locals0 self rt = (Inr lv1, s1, rt1)"
    and n: "torch_isnan_any (computed_psf ex (camera s1) (litho_model s1) (rng rt1))"
  let ?rt' = "snd (get_psf ex (camera s1) (litho_model s1) (emit EvZeroGrad rt1))"
  have r: "rng (emit EvZeroGrad rt1) = rng rt1" by (simp add: emit_def)
  from n have n': "torch_isnan_any
      (computed_psf ex (camera s1) (litho_model s1) (rng (emit EvZeroGrad rt1)))"
    by (simp only: r)
  have i: "optim_iter ex tgt k lv1 s1 rt1 = (Inl RuntimeError, s1, ?rt')"
    by (rule optim_iter_forward_Inl [OF forward_get_psf_Inl [OF get_psf_nan(1) [OF n']]])
  have l: "optim_loop ex tgt (py_range (num_iters self)) locals0 self rt
             = (Inl RuntimeError, s1, ?rt')"
    unfolding py_range_def by (rule optim_loop_halts [OF k a i])
  have t: "trace ?rt' = trace rt1 @ [EvZeroGrad]
             @ (if cam_use_litho_model_flag (camera s1) then [EvLitho] else [])"
    using get_psf_nan(2) [OF n'] by (simp add: emit_def)
  show "\<exists>rt'. optim_iter ex tgt k lv1 s1 rt1 = (Inl RuntimeError, s1, rt')
              \<and> optim_loop ex tgt (py_range (num_iters self)) locals0 self rt
                  = (Inl RuntimeError, s1, rt')
              \<and> optim ex tgt self rt = (Inl RuntimeError, s1, rt')
              \<and> trace rt' = trace rt1 @ [EvZeroGrad]
                   @ (if cam_use_litho_model_flag (camera s1) then [EvLitho] else [])"
    using i l optim_loop_Inl [OF l] t by blast
qed

theorem get_psf_nan_check_witness:
  "fst (get_psf ext_nan (cam0 False) [] rt0) = Inl RuntimeError
   \<and> fst (forward ext_nan (cam0 False) (px 1) [] rt0) = Inl RuntimeError
   \<and> fst (get_psf ext0 (cam0 False) [] rt0) = Inr (px 1, Fin 1, px 1, px 1)
   \<and> \<not> torch_isnan_any (px 1)
   \<and> fst (forward ext0 (cam0 False) (px 1) [] rt0) = Inr (px 1, px 1, Fin 1, px 1, px 1)
   \<and> optim ext_nan (px 1) (mbo0 False (Some ''cbr'') 2 1) rt0
       = (Inl RuntimeError, mbo0 False (Some ''cbr'') 2 1, \<lparr>rng = (), trace = [EvZeroGrad]\<rparr>)
   \<and> fst (optim ext_nan_late (px 1) (mbo0 False (Some ''cbr'') 2 5) rt0) = Inl RuntimeError
   \<and> doe_logits (camera (fst (snd
        (optim ext_nan_late (px 1) (mbo0 False (Some ''cbr'') 2 5) rt0)))) = px 0
   \<and> trace (snd (snd (optim ext_nan_late (px 1) (mbo0 False (Some ''cbr'') 2 5) rt0)))
       = [EvZeroGrad, EvBackward, EvOptStep, EvZeroGrad]"
proof -
  let ?S = "mbo0 False (Some ''cbr'') 2 1"
  let ?T = "mbo0 False (Some ''cbr'') 2 5"
  note A = get_psf_nan_check [of ext_nan "cam0 False" "[]" rt0 "px 1" ?S]
  note B = get_psf_nan_check [of ext0 "cam0 False" "[]" rt0 "px 1" ?S]
  note C = get_psf_nan_check [of ext_nan_late "cam0 False" "[]" rt0 "px 1" ?T]
  have a: "fst (get_psf ext_nan (cam0 False) [] rt0) = Inl RuntimeError
     \<and> fst (forward ext_nan (cam0 False) (px 1) [] rt0) = Inl RuntimeError"
    using A [THEN conjunct1] by (simp add: ext_nan_def eval0)
  have b: "fst (get_psf ext0 (cam0 False) [] rt0) = Inr (px 1, Fin 1, px 1, px 1)
     \<and> \<not> torch_isnan_any (px 1)
     \<and> fst (forward ext0 (cam0 False) (px 1) [] rt0) = Inr (px 1, px 1, Fin 1, px 1, px 1)"
    using B [THEN conjunct2, THEN conjunct1] B [THEN conjunct2, THEN conjunct2, THEN conjunct1]
    by (simp add: forward_def get_psf_cases eval0)
  have k0: "0 < nat (num_iters ?S)" by (simp add: mbo0_def)
  have l0: "optim_loop ext_nan (px 1) [0..<0] locals0 ?S rt0 = (Inr locals0, ?S, rt0)"
    by simp
  have n0: "torch_isnan_any (computed_psf ext_nan (camera ?S) (litho_model ?S) (rng rt0))"
    by (simp add: ext_nan_def mbo0_def eval0)
  from A [THEN conjunct2, THEN conjunct2, THEN conjunct2, rule_format, OF k0 l0 n0]
  have c: "optim ext_nan (px 1) ?S rt0
       = (Inl RuntimeError, ?S, \<lparr>rng = (), trace = [EvZeroGrad]\<rparr>)"
    by (simp add: ext_nan_def run0 upt_rec)
  let ?L = "optim_loop ext_nan_late (px 1) [0..<1] locals0 ?T rt0"
  have "fst ?L = Inr \<lparr>loss_list = [Fin 0], itr_list = [0], psf_save = Some None,
                      print_pred = Some (px 1)\<rparr>"
    by (simp add: ext_nan_late_def run0)
  then have l1: "?L = (Inr \<lparr>loss_list = [Fin 0], itr_list = [0], psf_save = Some None,
                      print_pred = Some (px 1)\<rparr>, fst (snd ?L), snd (snd ?L))"
    by (metis prod.collapse)
  have k1: "1 < nat (num_iters ?T)" by (simp add: mbo0_def)
  have n1: "torch_isnan_any (computed_psf ext_nan_late (camera (fst (snd ?L)))
              (litho_model (fst (snd ?L))) (rng (snd (snd ?L))))"
    by (simp add: ext_nan_late_def run0)
  from C [THEN conjunct2, THEN conjunct2, THEN conjunct2, rule_format, OF k1 l1 n1]
  obtain rt' where o: "optim ext_nan_late (px 1) ?T rt0 = (Inl RuntimeError, fst (snd ?L), rt')"
    and t: "trace rt' = trace (snd (snd ?L)) @ [EvZeroGrad]
              @ (if cam_use_litho_model_flag (camera (fst (snd ?L))) then [EvLitho] else [])"
    by blast
  have d: "fst (optim ext_nan_late (px 1) ?T rt0) = Inl RuntimeError
     \<and> doe_logits (camera (fst (snd (optim ext_nan_late (px 1) ?T rt0)))) = px 0
     \<and> trace (snd (snd (optim ext_nan_late (px 1) ?T rt0)))
         = [EvZeroGrad, EvBackward, EvOptStep, EvZeroGrad]"
    unfolding o using t by (simp add: ext_nan_late_def run0)
  show ?thesis using a b c d by (simp only: simp_thms)
qed

end
